theory Spec2Isabelle
  imports Main
begin

section \<open>Data model of \<^verbatim>\<open>tdt.py\<close>\<close>

text \<open>
  Python values as far as the configuration uses them: what \<^verbatim>\<open>yaml.load\<close> hands to
  \<^verbatim>\<open>from_dict\<close> and what \<^verbatim>\<open>json.loads(project.to_json())\<close> hands to \<^verbatim>\<open>yaml.dump\<close>.
  A dictionary is an association list read with \<open>map_of\<close>; only string keys are kept,
  since a key of another type never equals a field name.
\<close>

type_synonym path = string

datatype pyval =
    PNone
  | PStr string
  | PBool bool
  | PInt int
  | PList "pyval list"
  | PDict "(string \<times> pyval) list"

type_synonym pydict = "(string \<times> pyval) list"

text \<open>
  The outcome of \<^verbatim>\<open>yaml.load(stream, Loader=yaml.FullLoader)\<close> on the configuration
  file: the parser raises \<^verbatim>\<open>yaml.YAMLError\<close> (with its message), or returns the
  document. PyYAML is not part of the repository, so the outcome is an input of the
  model. Documents whose top level is not a mapping are left out.
\<close>

datatype yaml_result = YAMLError string | Loaded pydict

text \<open>
  The exceptions a run can end with. \<open>MaxOneRepo\<close> is
  \<^verbatim>\<open>Exception('max one repo; current={}'.format(repo))\<close>; \<open>WrongTypeError\<close> is dacite's,
  with the field's name; \<open>UnboundLocalError\<close> carries the name of the local variable;
  \<open>TypeError\<close> is raised by \<^verbatim>\<open>str.replace\<close> on an argument that is not a string; the
  others are the \<^verbatim>\<open>OSError\<close>s of the file operations, with the path
  (\<open>SameFileError\<close> is \<^verbatim>\<open>shutil\<close>'s).
\<close>

datatype error =
    MaxOneRepo "string list"
  | UnboundLocalError string
  | WrongTypeError string
  | TypeError
  | FileNotFoundError path
  | FileExistsError path
  | IsADirectoryError path
  | NotADirectoryError path
  | SameFileError path

text \<open>
  The dataclass \<^verbatim>\<open>TaxonomyProject\<close>. The field \<^verbatim>\<open>id\<close> is written \<open>id'\<close>. Python does not
  enforce the annotations: \<^verbatim>\<open>id\<close> is assigned \<^verbatim>\<open>None\<close> by \<^verbatim>\<open>seed\<close> and \<^verbatim>\<open>citation\<close>
  has the default \<^verbatim>\<open>None\<close>, so both are optional strings here, as are the fields
  declared \<^verbatim>\<open>Optional\<close>. Every other field only ever holds a value of its declared type.
\<close>

record TaxonomyProject =
  id' :: "string option"
  title :: string
  git_user :: string
  repo :: string
  github_org :: string
  git_main_branch :: string
  license :: string
  export_project_yaml :: bool
  description :: string
  author :: "string option"
  creators :: "string list option"
  citation :: "string option"

text \<open>\<^verbatim>\<open>TaxonomyProject()\<close>: every field at its default.\<close>

definition TaxonomyProject_default :: TaxonomyProject where
  "TaxonomyProject_default =
     \<lparr> id' = Some [], title = [], git_user = [], repo = [], github_org = [],
       git_main_branch = ''main'',
       license = ''https://creativecommons.org/licenses/unspecified'',
       export_project_yaml = False, description = ''None'',
       author = None, creators = None, citation = None \<rparr>"

text \<open>Python's truth value of an optional string: \<^verbatim>\<open>None\<close> and \<^verbatim>\<open>""\<close> are false.\<close>

definition truthy :: "string option \<Rightarrow> bool" where
  "truthy v = (case v of None \<Rightarrow> False | Some s \<Rightarrow> s \<noteq> [])"

text \<open>\<^verbatim>\<open>"{}".format(v)\<close> for an optional string: \<^verbatim>\<open>None\<close> is rendered as the word.\<close>

definition format_str :: "string option \<Rightarrow> string" where
  "format_str v = (case v of None \<Rightarrow> ''None'' | Some s \<Rightarrow> s)"

section \<open>Reading and writing the configuration\<close>

text \<open>
  \<^verbatim>\<open>from_dict(data_class=TaxonomyProject, data=obj)\<close> is dacite's, called with its
  default configuration: for each field of the dataclass, in order, the value under the
  field's name when the key is present, checked against the field's annotation
  (\<^verbatim>\<open>WrongTypeError\<close> otherwise), and the field's default when the key is absent; a key
  that names no field is not looked at. \<^verbatim>\<open>None\<close> passes the check only for a field
  annotated \<^verbatim>\<open>Optional\<close>; \<^verbatim>\<open>citation\<close> is annotated \<^verbatim>\<open>str\<close>.
\<close>

definition and_then :: "error + 'a \<Rightarrow> ('a \<Rightarrow> error + 'b) \<Rightarrow> error + 'b" where
  "and_then m f = (case m of Inl e \<Rightarrow> Inl e | Inr x \<Rightarrow> f x)"

definition str_field :: "pydict \<Rightarrow> string \<Rightarrow> string \<Rightarrow> error + string" where
  "str_field data name dflt =
     (case map_of data name of
        None \<Rightarrow> Inr dflt
      | Some (PStr s) \<Rightarrow> Inr s
      | Some _ \<Rightarrow> Inl (WrongTypeError name))"

definition bool_field :: "pydict \<Rightarrow> string \<Rightarrow> bool \<Rightarrow> error + bool" where
  "bool_field data name dflt =
     (case map_of data name of
        None \<Rightarrow> Inr dflt
      | Some (PBool b) \<Rightarrow> Inr b
      | Some _ \<Rightarrow> Inl (WrongTypeError name))"

definition opt_str_field :: "pydict \<Rightarrow> string \<Rightarrow> error + string option" where
  "opt_str_field data name =
     (case map_of data name of
        None \<Rightarrow> Inr None
      | Some PNone \<Rightarrow> Inr None
      | Some (PStr s) \<Rightarrow> Inr (Some s)
      | Some _ \<Rightarrow> Inl (WrongTypeError name))"

fun str_items :: "pyval list \<Rightarrow> string list option" where
  "str_items [] = Some []"
| "str_items (PStr s # vs) = map_option ((#) s) (str_items vs)"
| "str_items (_ # vs) = None"

definition opt_str_list_field :: "pydict \<Rightarrow> string \<Rightarrow> error + string list option" where
  "opt_str_list_field data name =
     (case map_of data name of
        None \<Rightarrow> Inr None
      | Some PNone \<Rightarrow> Inr None
      | Some (PList vs) \<Rightarrow>
          (case str_items vs of
             None \<Rightarrow> Inl (WrongTypeError name)
           | Some xs \<Rightarrow> Inr (Some xs))
      | Some _ \<Rightarrow> Inl (WrongTypeError name))"

text \<open>\<^verbatim>\<open>citation: str = None\<close>: absent gives the default, present must be a string.\<close>

definition citation_field :: "pydict \<Rightarrow> string \<Rightarrow> error + string option" where
  "citation_field data name =
     (case map_of data name of
        None \<Rightarrow> Inr None
      | Some (PStr s) \<Rightarrow> Inr (Some s)
      | Some _ \<Rightarrow> Inl (WrongTypeError name))"

definition from_dict :: "pydict \<Rightarrow> error + TaxonomyProject" where
  "from_dict data =
     and_then (str_field data ''id'' []) (\<lambda>v_id.
     and_then (str_field data ''title'' []) (\<lambda>v_title.
     and_then (str_field data ''git_user'' []) (\<lambda>v_git_user.
     and_then (str_field data ''repo'' []) (\<lambda>v_repo.
     and_then (str_field data ''github_org'' []) (\<lambda>v_github_org.
     and_then (str_field data ''git_main_branch'' ''main'') (\<lambda>v_branch.
     and_then (str_field data ''license''
                 ''https://creativecommons.org/licenses/unspecified'') (\<lambda>v_license.
     and_then (bool_field data ''export_project_yaml'' False) (\<lambda>v_export.
     and_then (str_field data ''description'' ''None'') (\<lambda>v_description.
     and_then (opt_str_field data ''author'') (\<lambda>v_author.
     and_then (opt_str_list_field data ''creators'') (\<lambda>v_creators.
     and_then (citation_field data ''citation'') (\<lambda>v_citation.
       Inr \<lparr> id' = Some v_id, title = v_title, git_user = v_git_user, repo = v_repo,
             github_org = v_github_org, git_main_branch = v_branch,
             license = v_license, export_project_yaml = v_export,
             description = v_description, author = v_author,
             creators = v_creators, citation = v_citation \<rparr>))))))))))))"

text \<open>
  \<^verbatim>\<open>json.loads(project.to_json())\<close>: the plain dictionary of all twelve fields, in the
  order of the dataclass; \<^verbatim>\<open>None\<close> is kept as \<^verbatim>\<open>null\<close>. (\<^verbatim>\<open>dataclass_json\<close> installs its
  own \<^verbatim>\<open>to_json\<close> on the class; it does not leave out empty fields.)
\<close>

definition opt_str_json :: "string option \<Rightarrow> pyval" where
  "opt_str_json v = (case v of None \<Rightarrow> PNone | Some s \<Rightarrow> PStr s)"

definition to_json :: "TaxonomyProject \<Rightarrow> pydict" where
  "to_json project =
     [(''id'', opt_str_json (id' project)),
      (''title'', PStr (title project)),
      (''git_user'', PStr (git_user project)),
      (''repo'', PStr (repo project)),
      (''github_org'', PStr (github_org project)),
      (''git_main_branch'', PStr (git_main_branch project)),
      (''license'', PStr (license project)),
      (''export_project_yaml'', PBool (export_project_yaml project)),
      (''description'', PStr (description project)),
      (''author'', opt_str_json (author project)),
      (''creators'',
         (case creators project of None \<Rightarrow> PNone | Some xs \<Rightarrow> PList (map PStr xs))),
      (''citation'', opt_str_json (citation project))]"

text \<open>
  \<^verbatim>\<open>Generator.load_config\<close>. The first argument is \<open>None\<close> when \<^verbatim>\<open>config_file\<close> is
  \<^verbatim>\<open>None\<close>, and otherwise what \<^verbatim>\<open>yaml.load\<close> does on the file. The result is the list of
  lines printed and either the exception raised or the project stored in
  \<^verbatim>\<open>self.context\<close>. When the parser raises, the handler prints the exception and falls
  through to \<^verbatim>\<open>from_dict(..., data=obj)\<close> with \<^verbatim>\<open>obj\<close> never assigned.
\<close>

definition override_title :: "string option \<Rightarrow> TaxonomyProject \<Rightarrow> TaxonomyProject" where
  "override_title title_opt project =
     (if truthy title_opt then project\<lparr>title := the title_opt\<rparr> else project)"

definition override_org :: "string option \<Rightarrow> TaxonomyProject \<Rightarrow> TaxonomyProject" where
  "override_org org project =
     (if truthy org then project\<lparr>github_org := the org\<rparr> else project)"

definition override_repo :: "string option \<Rightarrow> TaxonomyProject \<Rightarrow> TaxonomyProject" where
  "override_repo repo_opt project =
     (if truthy repo_opt then project\<lparr>repo := the repo_opt\<rparr> else project)"

definition load_config ::
  "yaml_result option \<Rightarrow> string option \<Rightarrow> string option \<Rightarrow> string option
     \<Rightarrow> string list \<times> (error + TaxonomyProject)" where
  "load_config config_file title_opt org repo_opt =
     (case (case config_file of
              None \<Rightarrow> ([], Inr TaxonomyProject_default)
            | Some (YAMLError exc) \<Rightarrow> ([exc], Inl (UnboundLocalError ''obj''))
            | Some (Loaded obj) \<Rightarrow> ([], from_dict obj)) of
        (printed, Inl e) \<Rightarrow> (printed, Inl e)
      | (printed, Inr project) \<Rightarrow>
          (printed,
           Inr (override_repo repo_opt (override_org org (override_title title_opt project)))))"

text \<open>
  The head of \<^verbatim>\<open>seed\<close> (lines 180 to 194): the check of the positional arguments, the
  call of \<^verbatim>\<open>load_config\<close> with \<^verbatim>\<open>org=user\<close>, and the fallback of the id. The local
  variable \<^verbatim>\<open>repo\<close> is rebound to the single positional argument or to \<^verbatim>\<open>None\<close>, and it is
  this variable that the fallback assigns.
\<close>

definition positional :: "string list \<Rightarrow> error + string option" where
  "positional repo_args =
     (if length repo_args > 0 then
        (if length repo_args > 1 then Inl (MaxOneRepo repo_args)
         else Inr (Some (hd repo_args)))
      else Inr None)"

definition id_fallback :: "string option \<Rightarrow> TaxonomyProject \<Rightarrow> TaxonomyProject" where
  "id_fallback repo_opt project =
     (if id' project = None \<or> id' project = Some [] then project\<lparr>id' := repo_opt\<rparr>
      else project)"

definition seed_resolve ::
  "yaml_result option \<Rightarrow> string option \<Rightarrow> string option \<Rightarrow> string list
     \<Rightarrow> string list \<times> (error + TaxonomyProject)" where
  "seed_resolve config title_opt user repo_args =
     (case positional repo_args of
        Inl e \<Rightarrow> ([], Inl e)
      | Inr repo_opt \<Rightarrow>
          (case load_config config title_opt user repo_opt of
             (printed, Inl e) \<Rightarrow> (printed, Inl e)
           | (printed, Inr project) \<Rightarrow> (printed, Inr (id_fallback repo_opt project))))"

section \<open>The output directory\<close>

text \<open>
  The file system as the program addresses it: a path, the string the program forms,
  names a file with its content, a directory, or nothing. A path is under a directory
  when it extends the directory's name and a slash. Parent directories, links and other
  spellings of one path are not modelled. The state of a run holds the file system, the
  list \<^verbatim>\<open>tgts\<close> of the files it produced and the lines printed.
\<close>

datatype node = File string | Dir

record state =
  fs :: "path \<Rightarrow> node option"
  tgts :: "path list"
  stdout :: "string list"

text \<open>
  A statement either completes or raises; in both cases it leaves a state behind (what
  was written before an exception stays on disk).
\<close>

type_synonym prog = "state \<Rightarrow> error option \<times> state"

definition skip :: prog where
  "skip s = (None, s)"

definition seq :: "prog \<Rightarrow> prog \<Rightarrow> prog" where
  "seq f g s = (case f s of (None, s') \<Rightarrow> g s' | (Some e, s') \<Rightarrow> (Some e, s'))"

fun run :: "prog list \<Rightarrow> prog" where
  "run [] = skip"
| "run (f # rest) = seq f (run rest)"

text \<open>\<^verbatim>\<open>tgts.append(p)\<close>.\<close>

definition append_tgt :: "path \<Rightarrow> prog" where
  "append_tgt p s = (None, s\<lparr>tgts := tgts s @ [p]\<rparr>)"

text \<open>\<^verbatim>\<open>os.path.exists(p)\<close>.\<close>

definition path_exists :: "state \<Rightarrow> path \<Rightarrow> bool" where
  "path_exists s p = (fs s p \<noteq> None)"

definition under :: "path \<Rightarrow> path \<Rightarrow> bool" where
  "under d p =
     (let root = (if d \<noteq> [] \<and> last d = CHR ''/'' then d else d @ ''/'')
      in take (length root) p = root)"

text \<open>\<^verbatim>\<open>shutil.rmtree(p)\<close>: the directory and everything under it.\<close>

definition rmtree :: "path \<Rightarrow> prog" where
  "rmtree p s =
     (case fs s p of
        None \<Rightarrow> (Some (FileNotFoundError p), s)
      | Some (File c) \<Rightarrow> (Some (NotADirectoryError p), s)
      | Some Dir \<Rightarrow> (None, s\<lparr>fs := (\<lambda>q. if q = p \<or> under p q then None else fs s q)\<rparr>))"

text \<open>\<^verbatim>\<open>os.makedirs(p, exist_ok=True)\<close>.\<close>

definition makedirs :: "path \<Rightarrow> prog" where
  "makedirs p s =
     (if p = [] then (Some (FileNotFoundError p), s)
      else case fs s p of
        Some (File c) \<Rightarrow> (Some (FileExistsError p), s)
      | _ \<Rightarrow> (None, s\<lparr>fs := (fs s)(p \<mapsto> Dir)\<rparr>))"

text \<open>\<^verbatim>\<open>with open(p, "w") as f: f.write(c)\<close>.\<close>

definition write_file :: "path \<Rightarrow> string \<Rightarrow> prog" where
  "write_file p c s =
     (case fs s p of
        Some Dir \<Rightarrow> (Some (IsADirectoryError p), s)
      | _ \<Rightarrow> (None, s\<lparr>fs := (fs s)(p \<mapsto> File c)\<rparr>))"

text \<open>\<^verbatim>\<open>os.path.basename(p)\<close>: what follows the last slash.\<close>

definition basename :: "path \<Rightarrow> string" where
  "basename p = rev (takeWhile (\<lambda>c. c \<noteq> CHR ''/'') (rev p))"

text \<open>\<^verbatim>\<open>os.path.join(a, b)\<close>.\<close>

definition path_join :: "path \<Rightarrow> string \<Rightarrow> path" where
  "path_join a b =
     (if b \<noteq> [] \<and> hd b = CHR ''/'' then b
      else if a = [] \<or> last a = CHR ''/'' then a @ b
      else a @ ''/'' @ b)"

text \<open>
  Where \<^verbatim>\<open>shutil.copy(src, dst)\<close> writes: into \<open>dst\<close> when \<open>dst\<close> is an existing
  directory, under the name of the source, and at \<open>dst\<close> otherwise.
\<close>

definition copy_target :: "state \<Rightarrow> path \<Rightarrow> path \<Rightarrow> path" where
  "copy_target s src dst =
     (if fs s dst = Some Dir then path_join dst (basename src) else dst)"

text \<open>
  \<^verbatim>\<open>shutil.copy(src, dst)\<close>: the target is chosen as above; \<^verbatim>\<open>copyfile\<close> then
  refuses to copy a file onto itself, reads the source and writes its bytes at the
  target.
\<close>

definition copy_file :: "path \<Rightarrow> path \<Rightarrow> prog" where
  "copy_file src dst s =
     (let target = copy_target s src dst in
      if src = target \<and> fs s src \<noteq> None then (Some (SameFileError src), s)
      else case fs s src of
        None \<Rightarrow> (Some (FileNotFoundError src), s)
      | Some Dir \<Rightarrow> (Some (IsADirectoryError src), s)
      | Some (File c) \<Rightarrow> write_file target c s)"

text \<open>
  \<^verbatim>\<open>save_project_yaml(project, path)\<close>. \<open>yaml_dump\<close> stands for
  \<^verbatim>\<open>yaml.dump(json_obj, default_flow_style=False)\<close>, a parameter of the model.
\<close>

definition save_project_yaml :: "(pydict \<Rightarrow> string) \<Rightarrow> TaxonomyProject \<Rightarrow> path \<Rightarrow> prog" where
  "save_project_yaml yaml_dump project p = write_file p (yaml_dump (to_json project))"

section \<open>The generated files\<close>

definition WORKSPACE :: path where
  "WORKSPACE = ''/tools''"

text \<open>\<^verbatim>\<open>create_folder(outdir, folder_name, tgts, title, description)\<close>.\<close>

definition create_folder :: "path \<Rightarrow> string \<Rightarrow> string option \<Rightarrow> string option \<Rightarrow> prog" where
  "create_folder outdir folder_name title_opt description_opt =
     seq (makedirs (outdir @ ''/'' @ folder_name))
       (if truthy title_opt \<and> truthy description_opt then
          (let readme = outdir @ ''/'' @ folder_name @ ''/README.md'' in
           seq (write_file readme
                  (''# '' @ the title_opt @ ''\<newline>\<newline>'' @ the description_opt))
               (append_tgt readme))
        else skip)"

text \<open>The list \<^verbatim>\<open>lines\<close> that \<^verbatim>\<open>create_purl_config\<close> builds.\<close>

definition purl_lines :: "TaxonomyProject \<Rightarrow> string list" where
  "purl_lines project =
     [''# PURL configuration for http://purl.bican.org/taxonomy/'' @ format_str (id' project),
      [],
      ''idspace: '' @ format_str (id' project),
      ''base_url: /taxonomy/'' @ format_str (id' project),
      [],
      ''products:'',
      ''- '' @ format_str (id' project) @ ''.json: https://raw.githubusercontent.com/''
         @ github_org project @ ''/'' @ repo project @ ''/main/''
         @ format_str (id' project) @ ''.json'',
      [],
      ''base_redirect: https://github.com/'' @ github_org project @ ''/'' @ repo project,
      [],
      ''entries:'',
      [],
      ''# http://purl.bican.org/taxonomy/'' @ format_str (id' project) @ ''/''
         @ format_str (id' project) @ ''.json'',
      ''- exact: /'' @ format_str (id' project) @ ''.json'',
      ''  replacement: https://raw.githubusercontent.com/'' @ github_org project @ ''/''
         @ repo project @ ''/main/'' @ format_str (id' project) @ ''.json'']"

text \<open>\<^verbatim>\<open>f.writelines(i + '\n' for i in lines)\<close>.\<close>

definition writelines :: "string list \<Rightarrow> string" where
  "writelines ls = concat (map (\<lambda>i. i @ ''\<newline>'') ls)"

text \<open>The path \<^verbatim>\<open>purl_config\<close> of \<^verbatim>\<open>create_purl_config\<close>.\<close>

definition purl_config :: "path \<Rightarrow> TaxonomyProject \<Rightarrow> path" where
  "purl_config outdir project = outdir @ ''/purl/'' @ format_str (id' project) @ ''.yml''"

definition create_purl_config :: "path \<Rightarrow> TaxonomyProject \<Rightarrow> prog" where
  "create_purl_config outdir project =
     seq (write_file (purl_config outdir project) (writelines (purl_lines project)))
         (append_tgt (purl_config outdir project))"

text \<open>The string that \<^verbatim>\<open>create_readme\<close> writes.\<close>

definition readme_text :: "TaxonomyProject \<Rightarrow> string" where
  "readme_text project =
     (let desc = (if description project \<noteq> [] then description project else title project)
      in ''# '' @ title project @ ''('' @ format_str (id' project) @ '')''
           @ ''\<newline>\<newline>'' @ desc @ ''.'')"

definition create_readme :: "path \<Rightarrow> TaxonomyProject \<Rightarrow> prog" where
  "create_readme outdir project =
     (let readme_file = outdir @ ''/README.md'' in
      seq (write_file readme_file (readme_text project)) (append_tgt readme_file))"

text \<open>The path \<^verbatim>\<open>output_file\<close> of \<^verbatim>\<open>create_output_file\<close>.\<close>

definition output_file :: "path \<Rightarrow> TaxonomyProject \<Rightarrow> path" where
  "output_file outdir project = outdir @ ''/'' @ format_str (id' project) @ ''.json''"

definition create_output_file :: "path \<Rightarrow> TaxonomyProject \<Rightarrow> prog" where
  "create_output_file outdir project =
     seq (write_file (output_file outdir project) ''{}'')
         (append_tgt (output_file outdir project))"

definition create_run_script :: "path \<Rightarrow> prog" where
  "create_run_script outdir =
     (let run_script_source = WORKSPACE @ ''/scripts/run.sh'';
          run_script_target = outdir @ ''/run.sh''
      in seq (append_tgt run_script_target) (copy_file run_script_source run_script_target))"

definition create_makefile :: "path \<Rightarrow> prog" where
  "create_makefile outdir =
     (let mf_source = WORKSPACE @ ''/Makefile'';
          mf_target = outdir @ ''/Makefile'';
          mf_ontodev_source = WORKSPACE @ ''/ontodev.Makefile'';
          mf_ontodev_target = outdir @ ''/ontodev.Makefile''
      in run [append_tgt mf_target, copy_file mf_source mf_target,
              append_tgt mf_ontodev_target, copy_file mf_ontodev_source mf_ontodev_target])"

text \<open>
  \<^verbatim>\<open>content.replace(old, new)\<close>: every occurrence of \<open>old\<close>, found from the left and
  not overlapping, is replaced.
\<close>

function str_replace :: "string \<Rightarrow> string \<Rightarrow> string \<Rightarrow> string" where
  "str_replace old new s =
     (if old = [] then new @ concat (map (\<lambda>c. c # new) s)
      else if s = [] then []
      else if take (length old) s = old
        then new @ str_replace old new (drop (length old) s)
      else hd s # str_replace old new (tl s))"
  by pat_completeness auto
termination
  by (relation "measure (\<lambda>(old, new, s). length s)") auto

declare str_replace.simps [simp del]

text \<open>
  The block that \<^verbatim>\<open>create_ontodev_tables\<close> runs for \<^verbatim>\<open>table.tsv\<close> and for
  \<^verbatim>\<open>column.tsv\<close>: read the resource, replace the token by \<^verbatim>\<open>project.id\<close> (a
  \<^verbatim>\<open>TypeError\<close> when the id is \<^verbatim>\<open>None\<close>), write the result, append the target.
\<close>

definition substitute_table :: "path \<Rightarrow> path \<Rightarrow> string option \<Rightarrow> prog" where
  "substitute_table table_source table_target project_id s =
     (case fs s table_source of
        None \<Rightarrow> (Some (FileNotFoundError table_source), s)
      | Some Dir \<Rightarrow> (Some (IsADirectoryError table_source), s)
      | Some (File content) \<Rightarrow>
          (case project_id of
             None \<Rightarrow> (Some TypeError, s)
           | Some i \<Rightarrow>
               seq (write_file table_target (str_replace ''{taxonomy_id}'' i content))
                   (append_tgt table_target) s))"

definition create_ontodev_tables :: "path \<Rightarrow> TaxonomyProject \<Rightarrow> prog" where
  "create_ontodev_tables outdir project =
     run [substitute_table (WORKSPACE @ ''/resources/table.tsv'')
            (outdir @ ''/curation_tables/table.tsv'') (id' project),
          substitute_table (WORKSPACE @ ''/resources/column.tsv'')
            (outdir @ ''/curation_tables/column.tsv'') (id' project),
          append_tgt (outdir @ ''/curation_tables/datatype.tsv''),
          copy_file (WORKSPACE @ ''/resources/datatype.tsv'')
            (outdir @ ''/curation_tables/datatype.tsv''),
          append_tgt (outdir @ ''/curation_tables/prefix.tsv''),
          copy_file (WORKSPACE @ ''/resources/prefix.tsv'')
            (outdir @ ''/curation_tables/prefix.tsv''),
          append_tgt (outdir @ ''/curation_tables/import.tsv''),
          copy_file (WORKSPACE @ ''/resources/import.tsv'')
            (outdir @ ''/curation_tables/import.tsv''),
          append_tgt (outdir @ ''/curation_tables/import_config.tsv''),
          copy_file (WORKSPACE @ ''/resources/import_config.tsv'')
            (outdir @ ''/curation_tables/import_config.tsv''),
          append_tgt (outdir @ ''/curation_tables/'' @ format_str (id' project) @ ''_config.tsv''),
          copy_file (WORKSPACE @ ''/resources/taxonomy_config.tsv'')
            (outdir @ ''/curation_tables/'' @ format_str (id' project) @ ''_config.tsv'')]"

section \<open>The command \<^verbatim>\<open>seed\<close>\<close>

text \<open>\<^verbatim>\<open>outdir\<close> after line 196: the option, or \<^verbatim>\<open>"target/{}".format(project.repo)\<close>.\<close>

definition resolve_outdir :: "path option \<Rightarrow> TaxonomyProject \<Rightarrow> path" where
  "resolve_outdir outdir_opt project =
     (case outdir_opt of None \<Rightarrow> ''target/'' @ repo project | Some d \<Rightarrow> d)"

text \<open>\<^verbatim>\<open>tdt_config_file\<close>, the echo of the configuration.\<close>

definition tdt_config_file :: "path \<Rightarrow> TaxonomyProject \<Rightarrow> path" where
  "tdt_config_file outdir project =
     outdir @ ''/'' @ format_str (id' project) @ ''_project_config.yaml''"

text \<open>
  Lines 197 to 224 of \<^verbatim>\<open>seed\<close>, for the resolved project and output directory.
  \<open>config\<close> is the path given with \<^verbatim>\<open>--config\<close>, if any.
\<close>

definition seed_generate ::
  "(pydict \<Rightarrow> string) \<Rightarrow> path option \<Rightarrow> bool \<Rightarrow> path \<Rightarrow> TaxonomyProject \<Rightarrow> prog" where
  "seed_generate yaml_dump config clean outdir project =
     run [(\<lambda>s. if clean \<and> path_exists s outdir then rmtree outdir s else skip s),
          (\<lambda>s. if \<not> path_exists s outdir then makedirs outdir s else skip s),
          (if export_project_yaml project then
             seq (save_project_yaml yaml_dump project (outdir @ ''/project.yaml''))
                 (append_tgt (outdir @ ''/project.yaml''))
           else skip),
          append_tgt (tdt_config_file outdir project),
          (case config of
             Some c \<Rightarrow> copy_file c (tdt_config_file outdir project)
           | None \<Rightarrow> save_project_yaml yaml_dump project (tdt_config_file outdir project)),
          create_folder outdir ''input_data'' (Some ''Input Files'')
            (Some ''Taxonomy data files.''),
          create_folder outdir ''curation_tables'' (Some ''Curation Tables'')
            (Some ''CCN2 taxonomy curation tables.''),
          create_folder outdir ''purl'' (Some ''PURL Configuration'')
            (Some (''BICAN Permanent URLs sample configuration file. ''
               @ ''Please make a pull request to place this file in [BICAN PURLs taxonomy configuration folder]''
               @ ''(https://github.com/hkir-dev/purl.bican.org/tree/main/config/taxonomy).'')),
          create_purl_config outdir project,
          create_readme outdir project,
          create_output_file outdir project,
          create_run_script outdir,
          create_makefile outdir,
          create_ontodev_tables outdir project]"

text \<open>
  \<^verbatim>\<open>seed\<close> up to the list of created files (the version-control commands and the
  messages that follow are run by external processes and are not modelled). \<open>config\<close>
  is the path given with \<^verbatim>\<open>--config\<close> together with what the parser does on that file;
  \<open>fs0\<close> is the file system the run starts on.
\<close>

definition seed ::
  "(pydict \<Rightarrow> string) \<Rightarrow> (path \<times> yaml_result) option \<Rightarrow> bool \<Rightarrow> path option
     \<Rightarrow> string option \<Rightarrow> string option \<Rightarrow> string list
     \<Rightarrow> (path \<Rightarrow> node option) \<Rightarrow> error option \<times> state" where
  "seed yaml_dump config clean outdir_opt title_opt user repo_args fs0 =
     (case seed_resolve (map_option snd config) title_opt user repo_args of
        (printed, Inl e) \<Rightarrow> (Some e, \<lparr>fs = fs0, tgts = [], stdout = printed\<rparr>)
      | (printed, Inr project) \<Rightarrow>
          seed_generate yaml_dump (map_option fst config) clean
            (resolve_outdir outdir_opt project) project
            \<lparr>fs = fs0, tgts = [], stdout = printed\<rparr>)"

section \<open>The words of the specification\<close>

text \<open>
  The specification states the precedence of the three overridable fields as: the
  command-line override when it is non-empty, else the value of the file, else the
  built-in default. \<open>file_value\<close> is the string a configuration file gives a field, if
  the file is there, is read, and has the key.
\<close>

definition file_value :: "yaml_result option \<Rightarrow> string \<Rightarrow> string option" where
  "file_value config_file name =
     (case config_file of
        Some (Loaded obj) \<Rightarrow> (case map_of obj name of Some (PStr s) \<Rightarrow> Some s | _ \<Rightarrow> None)
      | _ \<Rightarrow> None)"

definition precedence :: "string option \<Rightarrow> string option \<Rightarrow> string \<Rightarrow> string" where
  "precedence override file_val dflt =
     (case override of
        Some v \<Rightarrow> (if v \<noteq> [] then v else (case file_val of Some f \<Rightarrow> f | None \<Rightarrow> dflt))
      | None \<Rightarrow> (case file_val of Some f \<Rightarrow> f | None \<Rightarrow> dflt))"

text \<open>The names of the fields of the dataclass: the keys a configuration file is read for.\<close>

definition field_names :: "string list" where
  "field_names = [''id'', ''title'', ''git_user'', ''repo'', ''github_org'',
     ''git_main_branch'', ''license'', ''export_project_yaml'', ''description'',
     ''author'', ''creators'', ''citation'']"

text \<open>
  The planned artifacts of section 4.3 of the specification, as paths under the output
  directory and in its order: the files a run is to produce. (The README of
  \<^verbatim>\<open>input_data\<close> is the one the code lists there.)
\<close>

definition planned_files :: "path \<Rightarrow> TaxonomyProject \<Rightarrow> path list" where
  "planned_files outdir project =
     (if export_project_yaml project then [outdir @ ''/project.yaml''] else [])
     @ [tdt_config_file outdir project,
        outdir @ ''/input_data/README.md'',
        outdir @ ''/curation_tables/README.md'',
        outdir @ ''/purl/README.md'',
        purl_config outdir project,
        outdir @ ''/README.md'',
        output_file outdir project,
        outdir @ ''/run.sh'',
        outdir @ ''/Makefile'',
        outdir @ ''/ontodev.Makefile'',
        outdir @ ''/curation_tables/table.tsv'',
        outdir @ ''/curation_tables/column.tsv'',
        outdir @ ''/curation_tables/datatype.tsv'',
        outdir @ ''/curation_tables/prefix.tsv'',
        outdir @ ''/curation_tables/import.tsv'',
        outdir @ ''/curation_tables/import_config.tsv'',
        outdir @ ''/curation_tables/'' @ format_str (id' project) @ ''_config.tsv'']"

text \<open>
  For each planned file that is a copy (the echo of a given configuration file, the
  run script, the two makefiles and the five copied tables): the path of the same name
  as the source inside the planned path, which is where \<^verbatim>\<open>shutil.copy\<close> writes when a
  directory stands at the planned path.
\<close>

definition copied_inside :: "path option \<Rightarrow> path \<Rightarrow> TaxonomyProject \<Rightarrow> path list" where
  "copied_inside config outdir project =
     (case config of
        Some c \<Rightarrow> [path_join (tdt_config_file outdir project) (basename c)]
      | None \<Rightarrow> [])
     @ [path_join (outdir @ ''/run.sh'') (basename (WORKSPACE @ ''/scripts/run.sh'')),
        path_join (outdir @ ''/Makefile'') (basename (WORKSPACE @ ''/Makefile'')),
        path_join (outdir @ ''/ontodev.Makefile'') (basename (WORKSPACE @ ''/ontodev.Makefile'')),
        path_join (outdir @ ''/curation_tables/datatype.tsv'')
          (basename (WORKSPACE @ ''/resources/datatype.tsv'')),
        path_join (outdir @ ''/curation_tables/prefix.tsv'')
          (basename (WORKSPACE @ ''/resources/prefix.tsv'')),
        path_join (outdir @ ''/curation_tables/import.tsv'')
          (basename (WORKSPACE @ ''/resources/import.tsv'')),
        path_join (outdir @ ''/curation_tables/import_config.tsv'')
          (basename (WORKSPACE @ ''/resources/import_config.tsv'')),
        path_join (outdir @ ''/curation_tables/'' @ format_str (id' project) @ ''_config.tsv'')
          (basename (WORKSPACE @ ''/resources/taxonomy_config.tsv''))]"

section \<open>Predicates and examples for the proofs\<close>

text \<open>
  Predicates for the proofs below. \<open>frame W f\<close>: every file that was there before the
  statement \<open>f\<close> and whose path is not in \<open>W\<close> still has its content after it, whether
  \<open>f\<close> completes or raises. \<open>appends xs f\<close>: when \<open>f\<close> completes it has appended \<open>xs\<close> to
  \<^verbatim>\<open>tgts\<close>, and when it raises it has appended the first few of \<open>xs\<close>.
\<close>

definition frame :: "path set \<Rightarrow> prog \<Rightarrow> bool" where
  "frame W f =
     (\<forall>s e s'. f s = (e, s') \<longrightarrow>
        (\<forall>p c. fs s p = Some (File c) \<and> p \<notin> W \<longrightarrow> fs s' p = Some (File c)))"

definition appends :: "path list \<Rightarrow> prog \<Rightarrow> bool" where
  "appends xs f =
     (\<forall>s e s'. f s = (e, s') \<longrightarrow>
        (if e = None then tgts s' = tgts s @ xs
         else \<exists>k. tgts s' = tgts s @ take k xs))"

text \<open>
  A file system to run the command on: the resources of the tool under \<^verbatim>\<open>/tools\<close>, and
  an output directory \<^verbatim>\<open>target/x\<close> left by an earlier run, holding a file of the user's.
\<close>

definition demo_fs :: "path \<Rightarrow> node option" where
  "demo_fs =
     [''/tools/scripts/run.sh'' \<mapsto> File ''run'',
      ''/tools/Makefile'' \<mapsto> File ''mk'',
      ''/tools/ontodev.Makefile'' \<mapsto> File ''omk'',
      ''/tools/resources/table.tsv'' \<mapsto> File ''a {taxonomy_id} b'',
      ''/tools/resources/column.tsv'' \<mapsto> File ''{taxonomy_id}'',
      ''/tools/resources/datatype.tsv'' \<mapsto> File ''d'',
      ''/tools/resources/prefix.tsv'' \<mapsto> File ''p'',
      ''/tools/resources/import.tsv'' \<mapsto> File ''i'',
      ''/tools/resources/import_config.tsv'' \<mapsto> File ''ic'',
      ''/tools/resources/taxonomy_config.tsv'' \<mapsto> File ''tc'',
      ''target/x'' \<mapsto> Dir,
      ''target/x/notes.txt'' \<mapsto> File ''keep'']"

text \<open>
  The same with a directory \<^verbatim>\<open>Makefile\<close> in the output directory, holding a file of
  the user's that is also called \<^verbatim>\<open>Makefile\<close>.
\<close>

definition demo_fs_dir :: "path \<Rightarrow> node option" where
  "demo_fs_dir =
     demo_fs(''target/x/Makefile'' \<mapsto> Dir,
             ''target/x/Makefile/Makefile'' \<mapsto> File ''mine'')"

text \<open>
  The example file system with a configuration file that names the repository and
  nothing else.
\<close>

definition demo_fs_config :: "path \<Rightarrow> node option" where
  "demo_fs_config = demo_fs(''cfg.yaml'' \<mapsto> File ''repo: mouse'')"

text \<open>
  Two more predicates: a statement never raises \<open>e\<close>; a statement leaves the node at
  \<open>p\<close> as it is.
\<close>

definition never_raises :: "error \<Rightarrow> prog \<Rightarrow> bool" where
  "never_raises e f = (\<forall>s s'. f s \<noteq> (Some e, s'))"

definition keeps :: "path \<Rightarrow> prog \<Rightarrow> bool" where
  "keeps p f = (\<forall>s e s'. f s = (e, s') \<longrightarrow> fs s' p = fs s p)"

text \<open>The project of the examples: id \<^verbatim>\<open>x\<close>, organisation \<^verbatim>\<open>o\<close>, repository \<^verbatim>\<open>r\<close>.\<close>

definition demo_project :: TaxonomyProject where
  "demo_project = TaxonomyProject_default\<lparr>id' := Some ''x'', github_org := ''o'', repo := ''r''\<rparr>"

definition empty_state :: state where
  "empty_state = \<lparr>fs = Map.empty, tgts = [], stdout = []\<rparr>"

text \<open>The statements of \<^verbatim>\<open>seed\<close> that follow the creation of \<^verbatim>\<open>input_data\<close>.\<close>

definition after_input_data :: "path \<Rightarrow> TaxonomyProject \<Rightarrow> prog" where
  "after_input_data outdir project =
     run [create_folder outdir ''curation_tables'' (Some ''Curation Tables'')
            (Some ''CCN2 taxonomy curation tables.''),
          create_folder outdir ''purl'' (Some ''PURL Configuration'')
            (Some (''BICAN Permanent URLs sample configuration file. ''
               @ ''Please make a pull request to place this file in [BICAN PURLs taxonomy configuration folder]''
               @ ''(https://github.com/hkir-dev/purl.bican.org/tree/main/config/taxonomy).'')),
          create_purl_config outdir project,
          create_readme outdir project,
          create_output_file outdir project,
          create_run_script outdir,
          create_makefile outdir,
          create_ontodev_tables outdir project]"

section \<open>Resolution of the configuration\<close>

lemma positional_cases:
  "positional [] = Inr None"
  "positional [r] = Inr (Some r)"
  "positional (a # b # rs) = Inl (MaxOneRepo (a # b # rs))"
  by (simp_all add: positional_def)

lemma and_then_Inr: "and_then m f = Inr y \<longleftrightarrow> (\<exists>x. m = Inr x \<and> f x = Inr y)"
  by (cases m) (simp_all add: and_then_def)

lemma and_then_Inl: "and_then m f = Inl e \<longleftrightarrow> m = Inl e \<or> (\<exists>x. m = Inr x \<and> f x = Inl e)"
  by (cases m) (simp_all add: and_then_def)

lemma from_dict_fields:
  assumes "from_dict d = Inr p"
  shows "str_field d ''id'' [] = Inr (the (id' p))" "id' p \<noteq> None"
    "str_field d ''title'' [] = Inr (title p)"
    "str_field d ''repo'' [] = Inr (repo p)"
    "str_field d ''github_org'' [] = Inr (github_org p)"
  using assms unfolding from_dict_def and_then_Inr by auto

lemma field_errors:
  "str_field d k dflt = Inl e \<Longrightarrow> e = WrongTypeError k"
  "bool_field d k b = Inl e \<Longrightarrow> e = WrongTypeError k"
  "opt_str_field d k = Inl e \<Longrightarrow> e = WrongTypeError k"
  "opt_str_list_field d k = Inl e \<Longrightarrow> e = WrongTypeError k"
  "citation_field d k = Inl e \<Longrightarrow> e = WrongTypeError k"
  by (auto simp: str_field_def bool_field_def opt_str_field_def opt_str_list_field_def
      citation_field_def split: option.splits pyval.splits)

lemma from_dict_error: "from_dict d = Inl e \<Longrightarrow> \<exists>k. e = WrongTypeError k"
  unfolding from_dict_def and_then_Inl by (auto dest: field_errors)

text \<open>What \<^verbatim>\<open>load_config\<close> returns when it returns, and what it raises when it raises.\<close>

lemma load_config_Inr:
  assumes "load_config cfg t u r = (printed, Inr p)"
  shows "\<exists>q. (cfg = None \<and> q = TaxonomyProject_default
              \<or> (\<exists>d. cfg = Some (Loaded d) \<and> from_dict d = Inr q))
           \<and> printed = []
           \<and> p = override_repo r (override_org u (override_title t q))"
  using assms
  by (auto simp: load_config_def split: option.splits yaml_result.splits sum.splits)

lemma load_config_Inl:
  assumes "load_config cfg t u r = (printed, Inl e)"
  shows "e = UnboundLocalError ''obj'' \<or> (\<exists>k. e = WrongTypeError k)"
  using assms
  by (auto simp: load_config_def split: option.splits yaml_result.splits sum.splits
      dest: from_dict_error)

lemma file_value_str_field:
  "str_field d k dflt = Inr v \<Longrightarrow>
     v = (case file_value (Some (Loaded d)) k of Some f \<Rightarrow> f | None \<Rightarrow> dflt)"
  by (auto simp: str_field_def file_value_def split: option.splits pyval.splits)

lemma overrides_fields:
  "title (override_repo r (override_org u (override_title t q)))
     = (if truthy t then the t else title q)"
  "github_org (override_repo r (override_org u (override_title t q)))
     = (if truthy u then the u else github_org q)"
  "repo (override_repo r (override_org u (override_title t q)))
     = (if truthy r then the r else repo q)"
  "id' (override_repo r (override_org u (override_title t q))) = id' q"
  by (simp_all add: override_repo_def override_org_def override_title_def)

lemma precedence_truthy:
  "precedence ov fv dflt
     = (if truthy ov then the ov else (case fv of Some f \<Rightarrow> f | None \<Rightarrow> dflt))"
  by (simp add: precedence_def truthy_def split: option.splits)

lemmas resolve_defs =
  seed_resolve_def positional_def load_config_def from_dict_def and_then_def
  str_field_def bool_field_def opt_str_field_def opt_str_list_field_def citation_field_def
  override_title_def override_org_def override_repo_def truthy_def id_fallback_def
  TaxonomyProject_default_def

text \<open>
  Claim C5 (the code departs from it). A configuration file that the parser rejects
  does end the run, but not with the parser's error: \<^verbatim>\<open>load_config\<close> catches the
  \<^verbatim>\<open>yaml.YAMLError\<close>, prints it and goes on to \<^verbatim>\<open>from_dict(..., data=obj)\<close>, where the
  variable \<^verbatim>\<open>obj\<close> was never assigned. Whatever the message and the overrides, the
  exception that ends the run is the \<^verbatim>\<open>UnboundLocalError\<close> for \<^verbatim>\<open>obj\<close>, and the parser's
  message is only printed.
\<close>

theorem load_config_yaml_error:
  "load_config (Some (YAMLError exc)) title_opt org repo_opt
     = ([exc], Inl (UnboundLocalError ''obj''))"
  by (simp add: load_config_def)

text \<open>
  Claim C2. Whenever \<^verbatim>\<open>load_config\<close> returns a project, each of \<^verbatim>\<open>title\<close>,
  \<^verbatim>\<open>github_org\<close> (set from \<^verbatim>\<open>org\<close>) and \<^verbatim>\<open>repo\<close> is the override when the override is
  non-empty, else the value the file gives the field, else the default of the dataclass
  (the empty string for all three).
\<close>

theorem load_config_precedence:
  assumes "load_config cfg t u r = (printed, Inr p)"
  shows "title p = precedence t (file_value cfg ''title'') []
       \<and> github_org p = precedence u (file_value cfg ''github_org'') []
       \<and> repo p = precedence r (file_value cfg ''repo'') []"
proof -
  from load_config_Inr [OF assms] obtain q where
    q: "cfg = None \<and> q = TaxonomyProject_default
          \<or> (\<exists>d. cfg = Some (Loaded d) \<and> from_dict d = Inr q)"
    and p: "p = override_repo r (override_org u (override_title t q))"
    by blast
  have "title q = (case file_value cfg ''title'' of Some f \<Rightarrow> f | None \<Rightarrow> [])
      \<and> github_org q = (case file_value cfg ''github_org'' of Some f \<Rightarrow> f | None \<Rightarrow> [])
      \<and> repo q = (case file_value cfg ''repo'' of Some f \<Rightarrow> f | None \<Rightarrow> [])"
  proof (cases cfg)
    case None
    with q show ?thesis by (simp add: TaxonomyProject_default_def file_value_def)
  next
    case (Some y)
    with q obtain d where d: "cfg = Some (Loaded d)" "from_dict d = Inr q" by auto
    from from_dict_fields(3-5) [OF d(2)] show ?thesis
      unfolding d(1) by (auto dest: file_value_str_field)
  qed
  then show ?thesis by (simp add: p overrides_fields precedence_truthy)
qed

text \<open>
  A file that sets \<^verbatim>\<open>title\<close> and \<^verbatim>\<open>repo\<close> (and a key that is no field), with the title
  overridden: the override wins, the file's \<^verbatim>\<open>repo\<close> stays, \<^verbatim>\<open>github_org\<close> is the default.
\<close>

theorem load_config_precedence_witness:
  "load_config (Some (Loaded [(''title'', PStr ''A''), (''repo'', PStr ''file-repo''),
       (''colour'', PInt 3)])) (Some ''B'') None None
     = ([], Inr (TaxonomyProject_default\<lparr>title := ''B'', repo := ''file-repo''\<rparr>))
   \<and> title (TaxonomyProject_default\<lparr>title := ''B'', repo := ''file-repo''\<rparr>) = ''B''
   \<and> github_org (TaxonomyProject_default\<lparr>title := ''B'', repo := ''file-repo''\<rparr>) = []
   \<and> repo (TaxonomyProject_default\<lparr>title := ''B'', repo := ''file-repo''\<rparr>) = ''file-repo''"
proof -
  have e: "load_config (Some (Loaded [(''title'', PStr ''A''), (''repo'', PStr ''file-repo''),
       (''colour'', PInt 3)])) (Some ''B'') None None
     = ([], Inr (TaxonomyProject_default\<lparr>title := ''B'', repo := ''file-repo''\<rparr>))"
    by (simp add: resolve_defs)
  from load_config_precedence [OF e] e show ?thesis
    by (simp add: precedence_def file_value_def)
qed

text \<open>
  What the head of \<^verbatim>\<open>seed\<close> does with the id. When it returns a project, that project
  is the one \<^verbatim>\<open>load_config\<close> returned, overrides applied, with one change: if its id is
  \<^verbatim>\<open>None\<close> or empty, the id is the positional argument of the command line (\<^verbatim>\<open>None\<close>
  when there is none), and otherwise nothing is changed. Whenever a non-empty
  positional argument was given, it is also the field \<^verbatim>\<open>repo\<close> of the project.
\<close>

theorem seed_resolve_id:
  assumes "seed_resolve cfg t u rs = (printed, Inr p)"
  shows "\<exists>r q. positional rs = Inr r
           \<and> load_config cfg t u r = (printed, Inr q)
           \<and> (if id' q = None \<or> id' q = Some [] then p = q\<lparr>id' := r\<rparr> else p = q)
           \<and> (truthy r \<longrightarrow> r = Some (repo q))"
proof -
  from assms obtain r where r: "positional rs = Inr r"
    by (cases "positional rs") (simp_all add: seed_resolve_def)
  with assms obtain q where q: "load_config cfg t u r = (printed, Inr q)"
    and p: "p = id_fallback r q"
    by (auto simp: seed_resolve_def split: prod.splits sum.splits)
  from load_config_Inr [OF q] obtain q0
    where "q = override_repo r (override_org u (override_title t q0))"
    by blast
  then have "truthy r \<longrightarrow> r = Some (repo q)"
    by (cases r) (simp_all add: overrides_fields truthy_def)
  with r q p show ?thesis by (auto simp: id_fallback_def)
qed

text \<open>
  A file that sets only the title, and the positional argument \<^verbatim>\<open>mouse\<close>: the id and
  the field \<^verbatim>\<open>repo\<close> are both \<^verbatim>\<open>mouse\<close>.
\<close>

theorem seed_resolve_id_witness:
  "\<exists>r q. positional [''mouse''] = Inr r
      \<and> load_config (Some (Loaded [(''title'', PStr ''A'')])) None None r = ([], Inr q)
      \<and> (if id' q = None \<or> id' q = Some []
          then TaxonomyProject_default\<lparr>title := ''A'', repo := ''mouse'', id' := Some ''mouse''\<rparr>
                 = q\<lparr>id' := r\<rparr>
          else TaxonomyProject_default\<lparr>title := ''A'', repo := ''mouse'', id' := Some ''mouse''\<rparr> = q)
      \<and> (truthy r \<longrightarrow> r = Some (repo q))"
proof -
  have e: "seed_resolve (Some (Loaded [(''title'', PStr ''A'')])) None None [''mouse'']
     = ([], Inr (TaxonomyProject_default\<lparr>title := ''A'', repo := ''mouse'', id' := Some ''mouse''\<rparr>))"
    by (simp add: resolve_defs)
  from seed_resolve_id [OF e] show ?thesis .
qed

text \<open>
  Claim C1 (the code departs from it). The fallback of the id runs after the overrides
  and only when the id is empty, as claimed, but it assigns the local variable \<^verbatim>\<open>repo\<close>
  (the positional argument) and not the field \<^verbatim>\<open>repo\<close> of the project. With a
  configuration file that names the repository \<^verbatim>\<open>mouse\<close> and no id, and no positional
  argument, the resolved id is \<^verbatim>\<open>None\<close> while the field \<^verbatim>\<open>repo\<close> is \<^verbatim>\<open>mouse\<close>, and the run
  on the example file system ends with \<^verbatim>\<open>TypeError\<close> in \<^verbatim>\<open>create_ontodev_tables\<close>.
\<close>

theorem seed_resolve_id_not_repo:
  "seed_resolve (Some (Loaded [(''repo'', PStr ''mouse'')])) None None [] =
     ([], Inr (TaxonomyProject_default\<lparr>repo := ''mouse'', id' := None\<rparr>))
   \<and> fst (seed (\<lambda>d. []) (Some (''cfg.yaml'', Loaded [(''repo'', PStr ''mouse'')]))
            False None None None [] demo_fs_config) = Some TypeError"
  by (rule conjI) (simp add: resolve_defs, code_simp)

text \<open>
  Claim C3 (the code departs from it). A run with no configuration file and the
  overrides of the specification's first scenario resolves to a project whose
  \<^verbatim>\<open>citation\<close> is \<^verbatim>\<open>None\<close>, the default. \<^verbatim>\<open>save_project_yaml\<close> writes all twelve fields,
  \<^verbatim>\<open>citation: null\<close> among them, and reading that document back (what \<^verbatim>\<open>yaml.load\<close>
  returns on the output of \<^verbatim>\<open>yaml.dump\<close> is the dictionary dumped) is refused by
  \<^verbatim>\<open>from_dict\<close>: the field is annotated \<^verbatim>\<open>str\<close>.
\<close>

theorem roundtrip_default_citation:
  "seed_resolve None (Some ''Mouse MTG'') (Some ''brain-bican'') [''mouse-mtg-taxonomy'']
     = ([], Inr (TaxonomyProject_default\<lparr>id' := Some ''mouse-mtg-taxonomy'',
                  title := ''Mouse MTG'', repo := ''mouse-mtg-taxonomy'',
                  github_org := ''brain-bican''\<rparr>))
   \<and> load_config (Some (Loaded (to_json
          (TaxonomyProject_default\<lparr>id' := Some ''mouse-mtg-taxonomy'',
                  title := ''Mouse MTG'', repo := ''mouse-mtg-taxonomy'',
                  github_org := ''brain-bican''\<rparr>)))) None None None
     = ([], Inl (WrongTypeError ''citation''))"
  by (simp add: resolve_defs to_json_def opt_str_json_def)

subsection \<open>Supporting facts on the round trip and on the file's keys\<close>

text \<open>
  Reading back what \<^verbatim>\<open>save_project_yaml\<close> wrote gives the project again exactly when
  its id and its citation are strings; \<^verbatim>\<open>None\<close> in either is refused by the type check.
\<close>

lemma str_items_strings: "str_items (map PStr xs) = Some xs"
  by (induction xs) simp_all

lemma to_json_fields:
  "str_field (to_json p) ''id'' []
     = (case id' p of None \<Rightarrow> Inl (WrongTypeError ''id'') | Some i \<Rightarrow> Inr i)"
  "str_field (to_json p) ''title'' [] = Inr (title p)"
  "str_field (to_json p) ''git_user'' [] = Inr (git_user p)"
  "str_field (to_json p) ''repo'' [] = Inr (repo p)"
  "str_field (to_json p) ''github_org'' [] = Inr (github_org p)"
  "str_field (to_json p) ''git_main_branch'' ''main'' = Inr (git_main_branch p)"
  "str_field (to_json p) ''license'' ''https://creativecommons.org/licenses/unspecified''
     = Inr (license p)"
  "bool_field (to_json p) ''export_project_yaml'' False = Inr (export_project_yaml p)"
  "str_field (to_json p) ''description'' ''None'' = Inr (description p)"
  "opt_str_field (to_json p) ''author'' = Inr (author p)"
  "opt_str_list_field (to_json p) ''creators'' = Inr (creators p)"
  "citation_field (to_json p) ''citation''
     = (case citation p of None \<Rightarrow> Inl (WrongTypeError ''citation'') | Some c \<Rightarrow> Inr (Some c))"
  by (simp_all add: to_json_def str_field_def bool_field_def opt_str_field_def
      opt_str_list_field_def citation_field_def opt_str_json_def str_items_strings
      split: option.splits)

lemma from_dict_to_json:
  "from_dict (to_json p)
     = (if id' p = None then Inl (WrongTypeError ''id'')
        else if citation p = None then Inl (WrongTypeError ''citation'')
        else Inr p)"
proof (cases "id' p")
  case None
  then show ?thesis by (simp add: from_dict_def to_json_fields(1) and_then_def)
next
  case (Some i)
  show ?thesis
  proof (cases "citation p")
    case None
    with Some show ?thesis
      unfolding from_dict_def to_json_fields by (simp add: and_then_def)
  next
    case (Some c)
    with \<open>id' p = Some i\<close> show ?thesis
      unfolding from_dict_def to_json_fields by (cases p) (simp add: and_then_def)
  qed
qed

text \<open>
  A file that the parser reads never leads to the \<^verbatim>\<open>UnboundLocalError\<close>, and no file at
  all never leads to an error; a key of the file that names no field changes nothing.
\<close>

lemma load_config_loaded_error:
  "load_config (Some (Loaded d)) t u r \<noteq> (printed, Inl (UnboundLocalError n))"
  "load_config None t u r \<noteq> (printed, Inl e)"
  by (auto simp: load_config_def split: sum.splits dest: from_dict_error)

lemma field_unknown_key:
  assumes "n \<noteq> k"
  shows "str_field ((k, v) # d) n dflt = str_field d n dflt"
    "bool_field ((k, v) # d) n b = bool_field d n b"
    "opt_str_field ((k, v) # d) n = opt_str_field d n"
    "opt_str_list_field ((k, v) # d) n = opt_str_list_field d n"
    "citation_field ((k, v) # d) n = citation_field d n"
  using assms
  by (simp_all add: str_field_def bool_field_def opt_str_field_def opt_str_list_field_def
      citation_field_def)

lemma from_dict_unknown_key:
  assumes "k \<notin> set field_names"
  shows "from_dict ((k, v) # d) = from_dict d"
proof -
  from assms have n: "''id'' \<noteq> k" "''title'' \<noteq> k" "''git_user'' \<noteq> k" "''repo'' \<noteq> k"
    "''github_org'' \<noteq> k" "''git_main_branch'' \<noteq> k" "''license'' \<noteq> k"
    "''export_project_yaml'' \<noteq> k" "''description'' \<noteq> k" "''author'' \<noteq> k"
    "''creators'' \<noteq> k" "''citation'' \<noteq> k"
    unfolding field_names_def by auto
  show ?thesis
    unfolding from_dict_def
    by (simp only: field_unknown_key [OF n(1)] field_unknown_key [OF n(2)]
        field_unknown_key [OF n(3)] field_unknown_key [OF n(4)] field_unknown_key [OF n(5)]
        field_unknown_key [OF n(6)] field_unknown_key [OF n(7)] field_unknown_key [OF n(8)]
        field_unknown_key [OF n(9)] field_unknown_key [OF n(10)] field_unknown_key [OF n(11)]
        field_unknown_key [OF n(12)])
qed

section \<open>The content of the generated files\<close>

lemma seq_None:
  "seq f g s = (None, s') \<longleftrightarrow> (\<exists>s1. f s = (None, s1) \<and> g s1 = (None, s'))"
  by (auto simp: seq_def split: prod.splits option.splits)

lemma write_file_None:
  "write_file p c s = (None, s')
     \<longleftrightarrow> fs s p \<noteq> Some Dir \<and> s' = s\<lparr>fs := (fs s)(p \<mapsto> File c)\<rparr>"
  by (auto simp: write_file_def split: option.splits node.splits)

text \<open>
  The text of \<^verbatim>\<open>README.md\<close>: the title line, an empty line, and the description with
  a full stop, where the title stands in for a description that is the empty string.
\<close>

lemma readme_text_eq:
  "readme_text project =
     ''# '' @ title project @ ''('' @ format_str (id' project) @ '')'' @ ''\<newline>\<newline>''
       @ (if description project = [] then title project else description project) @ ''.''"
  by (simp add: readme_text_def)

text \<open>
  Claim C6 (the code departs from it). The format of \<^verbatim>\<open>README.md\<close> and the fallback
  for an empty description are as claimed, but a description that nobody set is not
  empty: the dataclass gives it the default \<^verbatim>\<open>"None"\<close>, a non-empty string, so the
  fallback of \<^verbatim>\<open>create_readme\<close> does not apply. In the first scenario of the
  specification (no configuration file, a title, an organisation and a repository
  name) the body of the README is \<^verbatim>\<open>None.\<close> and not the title.
\<close>

theorem readme_unset_description:
  "seed_resolve None (Some ''Mouse MTG'') (Some ''brain-bican'') [''mouse-mtg-taxonomy'']
     = ([], Inr (TaxonomyProject_default\<lparr>id' := Some ''mouse-mtg-taxonomy'',
                  title := ''Mouse MTG'', repo := ''mouse-mtg-taxonomy'',
                  github_org := ''brain-bican''\<rparr>))
   \<and> readme_text (TaxonomyProject_default\<lparr>id' := Some ''mouse-mtg-taxonomy'',
                  title := ''Mouse MTG'', repo := ''mouse-mtg-taxonomy'',
                  github_org := ''brain-bican''\<rparr>)
     = ''# Mouse MTG(mouse-mtg-taxonomy)\<newline>\<newline>None.''"
  by (simp add: resolve_defs readme_text_def format_str_def)

text \<open>
  Claim C7 (as amended). When \<^verbatim>\<open>create_purl_config\<close> completes, the file
  \<^verbatim>\<open>purl/{X}.yml\<close> under the output directory holds exactly these fifteen lines, each
  ended by a newline: a header comment naming the PURL of the taxonomy and an empty
  line, and then the thirteen lines of the claim, in its order, with one raw URL in the
  product entry and in the replacement. The path is appended to \<^verbatim>\<open>tgts\<close>.
\<close>

theorem create_purl_config_shape:
  assumes "create_purl_config outdir project s = (None, s')"
  shows "fs s' (outdir @ ''/purl/'' @ format_str (id' project) @ ''.yml'')
     = Some (File (
         (let X = format_str (id' project);
              raw = ''https://raw.githubusercontent.com/'' @ github_org project @ ''/''
                      @ repo project @ ''/main/'' @ X @ ''.json''
          in ''# PURL configuration for http://purl.bican.org/taxonomy/'' @ X @ ''\<newline>''
           @ ''\<newline>''
           @ ''idspace: '' @ X @ ''\<newline>''
           @ ''base_url: /taxonomy/'' @ X @ ''\<newline>''
           @ ''\<newline>''
           @ ''products:\<newline>''
           @ ''- '' @ X @ ''.json: '' @ raw @ ''\<newline>''
           @ ''\<newline>''
           @ ''base_redirect: https://github.com/'' @ github_org project @ ''/''
               @ repo project @ ''\<newline>''
           @ ''\<newline>''
           @ ''entries:\<newline>''
           @ ''\<newline>''
           @ ''# http://purl.bican.org/taxonomy/'' @ X @ ''/'' @ X @ ''.json\<newline>''
           @ ''- exact: /'' @ X @ ''.json\<newline>''
           @ ''  replacement: '' @ raw @ ''\<newline>'')))
   \<and> tgts s' = tgts s @ [outdir @ ''/purl/'' @ format_str (id' project) @ ''.yml'']"
  using assms
  by (auto simp: create_purl_config_def seq_None write_file_None append_tgt_def
      purl_config_def purl_lines_def writelines_def Let_def)

text \<open>The example project, written into an empty file system.\<close>

theorem create_purl_config_shape_witness:
  "fs (snd (create_purl_config ''out'' demo_project empty_state)) ''out/purl/x.yml''
     = Some (File (
        ''# PURL configuration for http://purl.bican.org/taxonomy/x\<newline>''
        @ ''\<newline>''
        @ ''idspace: x\<newline>''
        @ ''base_url: /taxonomy/x\<newline>''
        @ ''\<newline>''
        @ ''products:\<newline>''
        @ ''- x.json: https://raw.githubusercontent.com/o/r/main/x.json\<newline>''
        @ ''\<newline>''
        @ ''base_redirect: https://github.com/o/r\<newline>''
        @ ''\<newline>''
        @ ''entries:\<newline>''
        @ ''\<newline>''
        @ ''# http://purl.bican.org/taxonomy/x/x.json\<newline>''
        @ ''- exact: /x.json\<newline>''
        @ ''  replacement: https://raw.githubusercontent.com/o/r/main/x.json\<newline>''))
   \<and> tgts (snd (create_purl_config ''out'' demo_project empty_state)) = [''out/purl/x.yml'']"
proof -
  have "fst (create_purl_config ''out'' demo_project empty_state) = None"
    by code_simp
  then have e: "create_purl_config ''out'' demo_project empty_state
      = (None, snd (create_purl_config ''out'' demo_project empty_state))"
    by (metis prod.collapse)
  from create_purl_config_shape [OF e] show ?thesis
    by (simp add: demo_project_def TaxonomyProject_default_def format_str_def empty_state_def)
qed

text \<open>
  The claim as the specification words it lists thirteen lines starting with the
  \<^verbatim>\<open>idspace\<close> line. The file written for the example project has fifteen lines, and
  its first line is the header comment.
\<close>

theorem purl_config_header:
  "fs (snd (create_purl_config ''out'' demo_project empty_state)) ''out/purl/x.yml''
     = Some (File (writelines (purl_lines demo_project)))
   \<and> length (purl_lines demo_project) = 15
   \<and> hd (purl_lines demo_project)
       = ''# PURL configuration for http://purl.bican.org/taxonomy/x''
   \<and> hd (purl_lines demo_project) \<noteq> ''idspace: x''
   \<and> take 9 (writelines (purl_lines demo_project)) = ''# PURL co''"
  by code_simp

text \<open>
  Claim C10. With no configuration file and no positional argument the head of
  \<^verbatim>\<open>seed\<close> returns a project, whatever the title and the user options: the defaults with
  the overrides applied and the id \<^verbatim>\<open>None\<close> (the positional argument that was not
  given; the field \<^verbatim>\<open>repo\<close> is the empty string). The output directory is
  \<^verbatim>\<open>target/\<close>, and the paths formed from the id carry the word \<^verbatim>\<open>None\<close>.
\<close>

theorem seed_without_config_and_repo:
  "seed_resolve None t u []
     = ([], Inr ((override_org u (override_title t TaxonomyProject_default))\<lparr>id' := None\<rparr>))
   \<and> repo ((override_org u (override_title t TaxonomyProject_default))\<lparr>id' := None\<rparr>) = []
   \<and> resolve_outdir None
        ((override_org u (override_title t TaxonomyProject_default))\<lparr>id' := None\<rparr>)
       = ''target/''
   \<and> tdt_config_file ''target/''
        ((override_org u (override_title t TaxonomyProject_default))\<lparr>id' := None\<rparr>)
       = ''target//None_project_config.yaml''
   \<and> purl_config ''target/''
        ((override_org u (override_title t TaxonomyProject_default))\<lparr>id' := None\<rparr>)
       = ''target//purl/None.yml''
   \<and> output_file ''target/''
        ((override_org u (override_title t TaxonomyProject_default))\<lparr>id' := None\<rparr>)
       = ''target//None.json''"
  by (simp add: seed_resolve_def positional_def load_config_def id_fallback_def
      override_repo_def override_org_def override_title_def truthy_def
      TaxonomyProject_default_def resolve_outdir_def tdt_config_file_def purl_config_def
      output_file_def format_str_def)

text \<open>
  On the example file system such a run writes the files named after the id and then
  ends in \<^verbatim>\<open>create_ontodev_tables\<close>, where \<^verbatim>\<open>str.replace\<close> is handed the id \<^verbatim>\<open>None\<close>; the
  table named after the id is not reached.
\<close>

lemma seed_without_repo_run:
  "fst (seed (\<lambda>d. []) None False None None None [] demo_fs) = Some TypeError
   \<and> tgts (snd (seed (\<lambda>d. []) None False None None None [] demo_fs))
     = [''target//None_project_config.yaml'', ''target//input_data/README.md'',
        ''target//curation_tables/README.md'', ''target//purl/README.md'',
        ''target//purl/None.yml'', ''target//README.md'', ''target//None.json'',
        ''target//run.sh'', ''target//Makefile'', ''target//ontodev.Makefile'']"
  by code_simp

section \<open>What a run leaves alone\<close>

lemma seq_assoc: "seq (seq f g) h = seq f (seq g h)"
  by (rule ext) (simp add: seq_def split: prod.splits option.splits)

lemma seq_skip_left: "seq skip f = f"
  by (rule ext) (simp add: seq_def skip_def)

subsection \<open>Files outside the planned paths\<close>

lemma frame_skip: "frame W skip"
  by (simp add: frame_def skip_def)

lemma frame_append_tgt: "frame W (append_tgt p)"
  by (auto simp: frame_def append_tgt_def)

lemma frame_makedirs: "frame W (makedirs p)"
  by (auto simp: frame_def makedirs_def split: if_splits option.splits node.splits)

lemma frame_write_file: "q \<in> W \<Longrightarrow> frame W (write_file q c)"
  by (auto simp: frame_def write_file_def split: option.splits node.splits)

lemma frame_copy_file:
  assumes "dst \<in> W" "path_join dst (basename src) \<in> W"
  shows "frame W (copy_file src dst)"
proof -
  have "copy_target s src dst \<in> W" for s
    using assms by (simp add: copy_target_def)
  then show ?thesis
    unfolding frame_def copy_file_def Let_def
    by (auto simp: write_file_def split: option.splits node.splits if_splits)
qed

lemma frame_seq:
  assumes "frame W f" "frame W g"
  shows "frame W (seq f g)"
  unfolding frame_def
proof (intro allI impI)
  fix s e s' p c
  assume r: "seq f g s = (e, s')" and p: "fs s p = Some (File c) \<and> p \<notin> W"
  obtain e1 s1 where f: "f s = (e1, s1)" by (cases "f s")
  from assms(1) f p have k1: "fs s1 p = Some (File c)"
    unfolding frame_def by blast
  show "fs s' p = Some (File c)"
  proof (cases e1)
    case (Some x)
    with r f have "s' = s1" by (simp add: seq_def)
    with k1 show ?thesis by simp
  next
    case None
    with r f have "g s1 = (e, s')" by (simp add: seq_def)
    with assms(2) k1 p show ?thesis unfolding frame_def by blast
  qed
qed

lemma frame_run: "(\<And>f. f \<in> set progs \<Longrightarrow> frame W f) \<Longrightarrow> frame W (run progs)"
proof (induction progs)
  case Nil
  show ?case by (simp add: frame_skip)
next
  case (Cons a progs)
  then show ?case by (simp add: frame_seq)
qed

lemma frame_if:
  "frame W f \<Longrightarrow> frame W g \<Longrightarrow> frame W (\<lambda>s. if c s then f s else g s)"
  by (simp add: frame_def)

lemma frame_substitute_table: "q \<in> W \<Longrightarrow> frame W (substitute_table src q pid)"
  using frame_seq [OF frame_write_file frame_append_tgt, of q W _ q]
  unfolding frame_def substitute_table_def
  by (auto split: option.splits node.splits)

lemmas frame_intros =
  frame_seq frame_skip frame_append_tgt frame_makedirs frame_write_file frame_copy_file
  frame_substitute_table frame_if

lemma frame_seed_generate:
  "frame (set (planned_files outdir project) \<union> set (copied_inside config outdir project))
     (seed_generate yd config False outdir project)"
  unfolding seed_generate_def
  apply (rule frame_run)
  apply (simp only: set_simps insert_iff empty_iff)
  apply (elim disjE FalseE; simp only:)
               apply (auto simp: planned_files_def copied_inside_def
      create_folder_def create_purl_config_def create_readme_def create_output_file_def
      create_run_script_def create_makefile_def create_ontodev_tables_def
      save_project_yaml_def Let_def truthy_def
      intro!: frame_intros split: option.splits)
  done

subsection \<open>The list of created files\<close>

lemma appends_nothing:
  "appends [] skip"
  "appends [] (makedirs p)"
  "appends [] (rmtree p)"
  "appends [] (write_file p c)"
  "appends [] (copy_file src p)"
  "appends [] (save_project_yaml yd project p)"
  by (auto simp: appends_def skip_def makedirs_def rmtree_def write_file_def copy_file_def
      save_project_yaml_def Let_def split: option.splits node.splits if_splits)

lemma appends_append_tgt: "appends [p] (append_tgt p)"
  by (simp add: appends_def append_tgt_def)

lemma appends_seq:
  assumes "appends xs f" "appends ys g"
  shows "appends (xs @ ys) (seq f g)"
  unfolding appends_def
proof (intro allI impI)
  fix s e s'
  assume r: "seq f g s = (e, s')"
  obtain e1 s1 where f: "f s = (e1, s1)" by (cases "f s")
  show "if e = None then tgts s' = tgts s @ xs @ ys
        else \<exists>k. tgts s' = tgts s @ take k (xs @ ys)"
  proof (cases e1)
    case (Some x)
    with r f have e: "e = Some x" "s' = s1" by (simp_all add: seq_def)
    from assms(1) f Some obtain k where k: "tgts s1 = tgts s @ take k xs"
      unfolding appends_def by fastforce
    have "\<exists>j. tgts s1 = tgts s @ take j (xs @ ys)"
    proof (rule exI [of _ "min k (length xs)"])
      show "tgts s1 = tgts s @ take (min k (length xs)) (xs @ ys)"
        unfolding k by (cases "k \<le> length xs") (simp_all add: min_def)
    qed
    with e show ?thesis by simp
  next
    case None
    with r f have g: "g s1 = (e, s')" by (simp add: seq_def)
    from assms(1) f None have 1: "tgts s1 = tgts s @ xs"
      unfolding appends_def by fastforce
    show ?thesis
    proof (cases e)
      case None
      with assms(2) g 1 show ?thesis unfolding appends_def by fastforce
    next
      case (Some y)
      with assms(2) g obtain k where k: "tgts s' = tgts s1 @ take k ys"
        unfolding appends_def by fastforce
      have "\<exists>j. tgts s' = tgts s @ take j (xs @ ys)"
      proof (rule exI [of _ "length xs + k"])
        show "tgts s' = tgts s @ take (length xs + k) (xs @ ys)"
          unfolding k 1 by simp
      qed
      with Some show ?thesis by simp
    qed
  qed
qed

lemma appends_seq_eq:
  "appends xs f \<Longrightarrow> appends ys g \<Longrightarrow> zs = xs @ ys \<Longrightarrow> appends zs (seq f g)"
  by (simp add: appends_seq)

lemma appends_if:
  "appends xs f \<Longrightarrow> appends xs g \<Longrightarrow> appends xs (\<lambda>s. if c s then f s else g s)"
  by (simp add: appends_def)

lemma appends_write_append: "appends [p] (seq (write_file p c) (append_tgt p))"
  by (rule appends_seq_eq [OF appends_nothing(4) appends_append_tgt]) simp

lemma appends_append_copy: "appends [p] (seq (append_tgt p) (copy_file src p))"
  by (rule appends_seq_eq [OF appends_append_tgt appends_nothing(5)]) simp

lemma appends_substitute_table: "appends [q] (substitute_table src q pid)"
  using appends_write_append [of q _]
  unfolding appends_def substitute_table_def
  by (auto split: option.splits node.splits)

lemma appends_create_folder:
  assumes "truthy t" "truthy d"
  shows "appends [outdir @ ''/'' @ name @ ''/README.md''] (create_folder outdir name t d)"
proof -
  have "appends ([] @ [r]) (seq (makedirs m) (seq (write_file r c) (append_tgt r)))" for m r c
    by (intro appends_seq appends_nothing appends_write_append)
  with assms show ?thesis by (simp add: create_folder_def Let_def)
qed

lemma appends_create_purl_config:
  "appends [purl_config outdir project] (create_purl_config outdir project)"
  by (simp add: create_purl_config_def appends_write_append)

lemma appends_create_readme: "appends [outdir @ ''/README.md''] (create_readme outdir project)"
  by (simp add: create_readme_def Let_def appends_write_append)

lemma appends_create_output_file:
  "appends [output_file outdir project] (create_output_file outdir project)"
  by (simp add: create_output_file_def appends_write_append)

lemma appends_create_run_script: "appends [outdir @ ''/run.sh''] (create_run_script outdir)"
  by (simp add: create_run_script_def Let_def appends_append_copy)

lemma appends_run:
  "list_all2 appends xss progs \<Longrightarrow> appends (concat xss) (run progs)"
proof (induction xss progs rule: list_all2_induct)
  case Nil
  show ?case by (simp add: appends_nothing)
next
  case (Cons xs xss f progs)
  then show ?case by (simp add: appends_seq)
qed

lemma appends_run_eq:
  "list_all2 appends xss progs \<Longrightarrow> zs = concat xss \<Longrightarrow> appends zs (run progs)"
  by (simp add: appends_run)

lemma appends_create_makefile:
  "appends [outdir @ ''/Makefile'', outdir @ ''/ontodev.Makefile''] (create_makefile outdir)"
  unfolding create_makefile_def Let_def
  by (rule appends_run_eq
      [where xss = "[[outdir @ ''/Makefile''], [], [outdir @ ''/ontodev.Makefile''], []]"])
    (simp_all add: appends_append_tgt appends_nothing)

lemma appends_create_ontodev_tables:
  "appends [outdir @ ''/curation_tables/table.tsv'',
            outdir @ ''/curation_tables/column.tsv'',
            outdir @ ''/curation_tables/datatype.tsv'',
            outdir @ ''/curation_tables/prefix.tsv'',
            outdir @ ''/curation_tables/import.tsv'',
            outdir @ ''/curation_tables/import_config.tsv'',
            outdir @ ''/curation_tables/'' @ format_str (id' project) @ ''_config.tsv'']
     (create_ontodev_tables outdir project)"
  unfolding create_ontodev_tables_def
  by (rule appends_run_eq [where xss = "[[outdir @ ''/curation_tables/table.tsv''],
            [outdir @ ''/curation_tables/column.tsv''],
            [outdir @ ''/curation_tables/datatype.tsv''], [],
            [outdir @ ''/curation_tables/prefix.tsv''], [],
            [outdir @ ''/curation_tables/import.tsv''], [],
            [outdir @ ''/curation_tables/import_config.tsv''], [],
            [outdir @ ''/curation_tables/'' @ format_str (id' project) @ ''_config.tsv''], []]"])
    (simp_all add: appends_append_tgt appends_nothing appends_substitute_table)

lemma appends_seed_generate:
  "appends (planned_files outdir project) (seed_generate yd config clean outdir project)"
proof -
  have 1: "appends [] (\<lambda>s. if clean \<and> path_exists s outdir then rmtree outdir s else skip s)"
    by (simp add: appends_if appends_nothing)
  have 2: "appends [] (\<lambda>s. if \<not> path_exists s outdir then makedirs outdir s else skip s)"
    by (simp add: appends_if appends_nothing)
  have 3: "appends (if export_project_yaml project then [outdir @ ''/project.yaml''] else [])
     (if export_project_yaml project then
        seq (save_project_yaml yd project (outdir @ ''/project.yaml''))
            (append_tgt (outdir @ ''/project.yaml''))
      else skip)"
    by (simp add: appends_nothing save_project_yaml_def appends_write_append)
  have 5: "appends []
     (case config of
        Some c \<Rightarrow> copy_file c (tdt_config_file outdir project)
      | None \<Rightarrow> save_project_yaml yd project (tdt_config_file outdir project))"
    by (cases config) (simp_all add: appends_nothing)
  have 6: "appends [outdir @ ''/input_data/README.md'']
     (create_folder outdir ''input_data'' (Some ''Input Files'')
        (Some ''Taxonomy data files.''))"
    using appends_create_folder [of "Some ''Input Files''" "Some ''Taxonomy data files.''"
        outdir "''input_data''"]
    by (simp add: truthy_def)
  have 7: "appends [outdir @ ''/curation_tables/README.md'']
     (create_folder outdir ''curation_tables'' (Some ''Curation Tables'')
        (Some ''CCN2 taxonomy curation tables.''))"
    using appends_create_folder [of "Some ''Curation Tables''"
        "Some ''CCN2 taxonomy curation tables.''" outdir "''curation_tables''"]
    by (simp add: truthy_def)
  have 8: "appends [outdir @ ''/purl/README.md'']
     (create_folder outdir ''purl'' (Some ''PURL Configuration'') d)" if "truthy d" for d
    using appends_create_folder [of "Some ''PURL Configuration''" d outdir "''purl''"] that
    by (simp add: truthy_def)
  show ?thesis
    unfolding seed_generate_def
    apply (rule appends_run_eq [where xss = "[[], [],
        (if export_project_yaml project then [outdir @ ''/project.yaml''] else []),
        [tdt_config_file outdir project], [],
        [outdir @ ''/input_data/README.md''],
        [outdir @ ''/curation_tables/README.md''],
        [outdir @ ''/purl/README.md''],
        [purl_config outdir project],
        [outdir @ ''/README.md''],
        [output_file outdir project],
        [outdir @ ''/run.sh''],
        [outdir @ ''/Makefile'', outdir @ ''/ontodev.Makefile''],
        [outdir @ ''/curation_tables/table.tsv'',
            outdir @ ''/curation_tables/column.tsv'',
            outdir @ ''/curation_tables/datatype.tsv'',
            outdir @ ''/curation_tables/prefix.tsv'',
            outdir @ ''/curation_tables/import.tsv'',
            outdir @ ''/curation_tables/import_config.tsv'',
            outdir @ ''/curation_tables/'' @ format_str (id' project) @ ''_config.tsv'']]"])
    using 1 2 3 5 6 7 8 appends_append_tgt [of "tdt_config_file outdir project"]
      appends_create_purl_config [of outdir project] appends_create_readme [of outdir project]
      appends_create_output_file [of outdir project] appends_create_run_script [of outdir]
      appends_create_makefile [of outdir] appends_create_ontodev_tables [of outdir project]
     apply (simp add: truthy_def)
    apply (simp add: planned_files_def)
    done
qed

lemma seed_generate_clean:
  assumes "fs0 outdir = Some Dir"
  shows "seed_generate yd config True outdir project \<lparr>fs = fs0, tgts = ts, stdout = out\<rparr>
       = seed_generate yd config False outdir project
           \<lparr>fs = (\<lambda>q. if q = outdir \<or> under outdir q then None else fs0 q),
            tgts = ts, stdout = out\<rparr>"
proof -
  have 1: "rmtree outdir \<lparr>fs = fs0, tgts = ts, stdout = out\<rparr>
      = (None, \<lparr>fs = (\<lambda>q. if q = outdir \<or> under outdir q then None else fs0 q),
            tgts = ts, stdout = out\<rparr>)"
    using assms by (simp add: rmtree_def cong: if_cong)
  have 2: "path_exists \<lparr>fs = fs0, tgts = ts, stdout = out\<rparr> outdir"
    using assms by (simp add: path_exists_def)
  show ?thesis
    unfolding seed_generate_def run.simps
    by (subst (1 2) seq_def) (simp add: 1 2 skip_def)
qed

text \<open>
  Claim C9 (as amended). With the clean flag, when the output directory exists (as a
  directory), \<^verbatim>\<open>seed\<close> does what it does without the flag on the file system from which
  the directory and everything under it has been removed: the removal comes before
  anything is written. Without the flag, whether the run completes or raises part-way,
  every file that was there before the run still has its content, unless its path is a
  planned file or is the path of a copied file's name inside the planned path of that
  copy (where \<^verbatim>\<open>shutil.copy\<close> writes when a directory stands at the planned path). The
  list \<^verbatim>\<open>tgts\<close> of a run is the list of planned files when the run completes and an
  initial part of it when the run raises; a run whose resolution raises writes nothing.
\<close>

theorem seed_clean_and_frame:
  "(\<forall>printed project.
       seed_resolve (map_option snd config) t u rs = (printed, Inr project)
       \<and> fs0 (resolve_outdir od project) = Some Dir \<longrightarrow>
       seed yd config True od t u rs fs0
         = seed yd config False od t u rs
             (\<lambda>q. if q = resolve_outdir od project \<or> under (resolve_outdir od project) q
                  then None else fs0 q))
   \<and> (\<forall>printed project e s' p c.
       seed_resolve (map_option snd config) t u rs = (printed, Inr project)
       \<and> seed yd config False od t u rs fs0 = (e, s') \<and> fs0 p = Some (File c)
       \<and> p \<notin> set (planned_files (resolve_outdir od project) project)
       \<and> p \<notin> set (copied_inside (map_option fst config) (resolve_outdir od project) project)
       \<longrightarrow> fs s' p = Some (File c))
   \<and> (\<forall>printed project e s'.
       seed_resolve (map_option snd config) t u rs = (printed, Inr project)
       \<and> seed yd config clean od t u rs fs0 = (e, s') \<longrightarrow>
       (if e = None then tgts s' = planned_files (resolve_outdir od project) project
        else \<exists>k. tgts s' = take k (planned_files (resolve_outdir od project) project)))
   \<and> (\<forall>printed x.
       seed_resolve (map_option snd config) t u rs = (printed, Inl x) \<longrightarrow>
       seed yd config clean od t u rs fs0
         = (Some x, \<lparr>fs = fs0, tgts = [], stdout = printed\<rparr>))"
proof (intro conjI allI impI)
  fix printed project
  assume "seed_resolve (map_option snd config) t u rs = (printed, Inr project)
       \<and> fs0 (resolve_outdir od project) = Some Dir"
  then show "seed yd config True od t u rs fs0
         = seed yd config False od t u rs
             (\<lambda>q. if q = resolve_outdir od project \<or> under (resolve_outdir od project) q
                  then None else fs0 q)"
    by (simp add: seed_def seed_generate_clean)
next
  fix printed project e s' p c
  assume h: "seed_resolve (map_option snd config) t u rs = (printed, Inr project)
       \<and> seed yd config False od t u rs fs0 = (e, s') \<and> fs0 p = Some (File c)
       \<and> p \<notin> set (planned_files (resolve_outdir od project) project)
       \<and> p \<notin> set (copied_inside (map_option fst config) (resolve_outdir od project) project)"
  then have "seed_generate yd (map_option fst config) False (resolve_outdir od project) project
           \<lparr>fs = fs0, tgts = [], stdout = printed\<rparr> = (e, s')"
    by (auto simp: seed_def)
  with frame_seed_generate [of "resolve_outdir od project" project "map_option fst config" yd] h
  show "fs s' p = Some (File c)"
    unfolding frame_def by fastforce
next
  fix printed project e s'
  assume h: "seed_resolve (map_option snd config) t u rs = (printed, Inr project)
       \<and> seed yd config clean od t u rs fs0 = (e, s')"
  then have "seed_generate yd (map_option fst config) clean (resolve_outdir od project) project
           \<lparr>fs = fs0, tgts = [], stdout = printed\<rparr> = (e, s')"
    by (auto simp: seed_def)
  with appends_seed_generate [of "resolve_outdir od project" project yd "map_option fst config" clean]
  show "if e = None then tgts s' = planned_files (resolve_outdir od project) project
        else \<exists>k. tgts s' = take k (planned_files (resolve_outdir od project) project)"
    unfolding appends_def by fastforce
next
  fix printed x
  assume "seed_resolve (map_option snd config) t u rs = (printed, Inl x)"
  then show "seed yd config clean od t u rs fs0
         = (Some x, \<lparr>fs = fs0, tgts = [], stdout = printed\<rparr>)"
    by (simp add: seed_def)
qed

text \<open>
  The claim as the specification words it fails where a directory stands at the planned
  path of a copy: on the example file system with a directory \<^verbatim>\<open>target/x/Makefile\<close>, the
  run without the flag completes and overwrites the user's file
  \<^verbatim>\<open>target/x/Makefile/Makefile\<close>, which is no planned file and is not listed by the run.
\<close>

theorem seed_overwrites_inside_directory:
  "seed_resolve None None None [''x'']
     = ([], Inr (TaxonomyProject_default\<lparr>repo := ''x'', id' := Some ''x''\<rparr>))
   \<and> fst (seed (\<lambda>d. []) None False None None None [''x''] demo_fs_dir) = None
   \<and> demo_fs_dir ''target/x/Makefile/Makefile'' = Some (File ''mine'')
   \<and> fs (snd (seed (\<lambda>d. []) None False None None None [''x''] demo_fs_dir))
        ''target/x/Makefile/Makefile'' = Some (File ''mk'')
   \<and> ''target/x/Makefile/Makefile''
        \<notin> set (planned_files ''target/x''
                 (TaxonomyProject_default\<lparr>repo := ''x'', id' := Some ''x''\<rparr>))
   \<and> ''target/x/Makefile/Makefile''
        \<notin> set (tgts (snd (seed (\<lambda>d. []) None False None None None [''x''] demo_fs_dir)))"
  by code_simp

text \<open>
  On the example file system the run with the flag is the run on the emptied directory;
  without the flag the user's file in \<^verbatim>\<open>target/x\<close> survives and the run lists exactly
  the planned files.
\<close>

theorem seed_clean_and_frame_witness:
  "seed (\<lambda>d. []) None True None None None [''x''] demo_fs
     = seed (\<lambda>d. []) None False None None None [''x'']
         (\<lambda>q. if q = ''target/x'' \<or> under ''target/x'' q then None else demo_fs q)
   \<and> fs (snd (seed (\<lambda>d. []) None False None None None [''x''] demo_fs)) ''target/x/notes.txt''
     = Some (File ''keep'')
   \<and> tgts (snd (seed (\<lambda>d. []) None False None None None [''x''] demo_fs))
     = planned_files ''target/x'' (TaxonomyProject_default\<lparr>repo := ''x'', id' := Some ''x''\<rparr>)"
proof -
  let ?P = "TaxonomyProject_default\<lparr>repo := ''x'', id' := Some ''x''\<rparr>"
  let ?run = "seed (\<lambda>d. []) None False None None None [''x''] demo_fs"
  have r: "seed_resolve (map_option snd None) None None [''x''] = ([], Inr ?P)"
    by (simp add: resolve_defs)
  have o: "resolve_outdir None ?P = ''target/x''"
    by (simp add: resolve_outdir_def)
  have d: "demo_fs ''target/x'' = Some Dir"
    by (simp add: demo_fs_def)
  have n: "demo_fs ''target/x/notes.txt'' = Some (File ''keep'')"
    by (simp add: demo_fs_def)
  have p1: "''target/x/notes.txt'' \<notin> set (planned_files ''target/x'' ?P)"
    by code_simp
  have p2: "''target/x/notes.txt'' \<notin> set (copied_inside (map_option fst None) ''target/x'' ?P)"
    by code_simp
  have "fst ?run = None"
    by code_simp
  then have e: "?run = (None, snd ?run)"
    by (metis prod.collapse)
  note th = seed_clean_and_frame [where config = None and t = None and u = None
      and rs = "[''x'']" and ?fs0.0 = demo_fs and od = None and yd = "\<lambda>d. []"
      and clean = False]
  from th [THEN conjunct1, rule_format, of "[]" ?P] r o d
  have c1: "seed (\<lambda>d. []) None True None None None [''x''] demo_fs
     = seed (\<lambda>d. []) None False None None None [''x'']
         (\<lambda>q. if q = ''target/x'' \<or> under ''target/x'' q then None else demo_fs q)"
    by simp
  from th [THEN conjunct2, THEN conjunct1, rule_format,
      of "[]" ?P None "snd ?run" "''target/x/notes.txt''" "''keep''"] r e n p1 p2 o
  have c2: "fs (snd ?run) ''target/x/notes.txt'' = Some (File ''keep'')"
    by simp
  from th [THEN conjunct2, THEN conjunct2, THEN conjunct1, rule_format,
      of "[]" ?P None "snd ?run"] r e o
  have c3: "tgts (snd ?run) = planned_files ''target/x'' ?P"
    by simp
  from c1 c2 c3 show ?thesis by simp
qed

text \<open>With the flag the user's file is gone after the run.\<close>

lemma demo_clean_run:
  "fs (snd (seed (\<lambda>d. []) None True None None None [''x''] demo_fs)) ''target/x/notes.txt''
     = None
   \<and> fst (seed (\<lambda>d. []) None True None None None [''x''] demo_fs) = None"
  by code_simp

section \<open>The positional arguments\<close>

lemma never_raises_seq:
  "never_raises e f \<Longrightarrow> never_raises e g \<Longrightarrow> never_raises e (seq f g)"
  by (auto simp: never_raises_def seq_def split: prod.splits option.splits)

lemma never_raises_run:
  "(\<And>f. f \<in> set progs \<Longrightarrow> never_raises e f) \<Longrightarrow> never_raises e (run progs)"
proof (induction progs)
  case Nil
  show ?case by (simp add: never_raises_def skip_def)
next
  case (Cons a progs)
  then show ?case by (simp add: never_raises_seq)
qed

lemma never_usage_prims:
  "never_raises (MaxOneRepo rs) skip"
  "never_raises (MaxOneRepo rs) (append_tgt p)"
  "never_raises (MaxOneRepo rs) (makedirs p)"
  "never_raises (MaxOneRepo rs) (rmtree p)"
  "never_raises (MaxOneRepo rs) (write_file p c)"
  "never_raises (MaxOneRepo rs) (copy_file src p)"
  "never_raises (MaxOneRepo rs) (save_project_yaml yd project p)"
  "never_raises (MaxOneRepo rs) (substitute_table src p pid)"
  by (auto simp: never_raises_def skip_def append_tgt_def makedirs_def rmtree_def
      write_file_def copy_file_def save_project_yaml_def substitute_table_def seq_def
      Let_def split: option.splits node.splits if_splits prod.splits)

lemma never_raises_if:
  "never_raises e f \<Longrightarrow> never_raises e g \<Longrightarrow> never_raises e (\<lambda>s. if c s then f s else g s)"
  by (simp add: never_raises_def)

lemma never_usage_generate:
  "never_raises (MaxOneRepo rs) (seed_generate yd config clean outdir project)"
  unfolding seed_generate_def
  apply (rule never_raises_run)
  apply (simp only: set_simps insert_iff empty_iff)
  apply (elim disjE FalseE; simp only:)
               apply (simp_all add: never_raises_if never_usage_prims never_raises_seq
      create_folder_def create_purl_config_def create_readme_def create_output_file_def
      create_run_script_def create_makefile_def create_ontodev_tables_def Let_def
      split: option.splits)
  done

text \<open>
  Claim C4. With two or more positional arguments \<^verbatim>\<open>seed\<close> raises
  \<^verbatim>\<open>Exception('max one repo; ...')\<close> before it reads the configuration or touches the
  file system, whatever the other inputs; with none or one, no run ends with that
  exception, neither in the resolution nor in the generation.
\<close>

theorem seed_max_one_repo:
  "(2 \<le> length rs \<longrightarrow>
      seed yd config clean od t u rs fs0
        = (Some (MaxOneRepo rs), \<lparr>fs = fs0, tgts = [], stdout = []\<rparr>))
   \<and> (length rs \<le> 1 \<longrightarrow> fst (seed yd config clean od t u rs fs0) \<noteq> Some (MaxOneRepo rs'))"
proof (intro conjI impI)
  assume "2 \<le> length rs"
  then obtain a b rest where "rs = a # b # rest"
    by (cases rs; cases "tl rs") auto
  then show "seed yd config clean od t u rs fs0
        = (Some (MaxOneRepo rs), \<lparr>fs = fs0, tgts = [], stdout = []\<rparr>)"
    by (simp add: seed_def seed_resolve_def positional_cases)
next
  assume "length rs \<le> 1"
  then obtain r where r: "positional rs = Inr r"
    by (cases rs; cases "tl rs") (auto simp: positional_cases)
  show "fst (seed yd config clean od t u rs fs0) \<noteq> Some (MaxOneRepo rs')"
  proof (cases "load_config (map_option snd config) t u r")
    case (Pair printed res)
    show ?thesis
    proof (cases res)
      case (Inl e)
      with Pair load_config_Inl [of "map_option snd config" t u r printed e]
      show ?thesis using r by (auto simp: seed_def seed_resolve_def)
    next
      case (Inr project)
      with Pair r never_usage_generate [of rs' yd "map_option fst config" clean
          "resolve_outdir od (id_fallback r project)" "id_fallback r project"]
      show ?thesis
        by (cases "seed_generate yd (map_option fst config) clean
              (resolve_outdir od (id_fallback r project)) (id_fallback r project)
              \<lparr>fs = fs0, tgts = [], stdout = printed\<rparr>")
          (auto simp: seed_def seed_resolve_def never_raises_def)
    qed
  qed
qed

text \<open>Two arguments are refused; one argument runs to the end on the example file system.\<close>

theorem seed_max_one_repo_witness:
  "seed (\<lambda>d. []) None False None None None [''a'', ''b''] demo_fs
     = (Some (MaxOneRepo [''a'', ''b'']), \<lparr>fs = demo_fs, tgts = [], stdout = []\<rparr>)
   \<and> fst (seed (\<lambda>d. []) None False None None None [''x''] demo_fs)
       \<noteq> Some (MaxOneRepo [''x''])"
  using seed_max_one_repo [of "[''a'', ''b'']" "\<lambda>d. []" None False None None None demo_fs]
    seed_max_one_repo [of "[''x'']" "\<lambda>d. []" None False None None None demo_fs "[''x'']"]
  by simp

section \<open>The directory \<^verbatim>\<open>input_data\<close>\<close>

lemma keeps_skip: "keeps p skip"
  by (simp add: keeps_def skip_def)

lemma keeps_append_tgt: "keeps p (append_tgt q)"
  by (auto simp: keeps_def append_tgt_def)

lemma keeps_makedirs: "p \<noteq> q \<Longrightarrow> keeps p (makedirs q)"
  by (auto simp: keeps_def makedirs_def split: if_splits option.splits node.splits)

lemma keeps_write_file: "p \<noteq> q \<Longrightarrow> keeps p (write_file q c)"
  by (auto simp: keeps_def write_file_def split: option.splits node.splits)

lemma keeps_copy_file:
  assumes "p \<noteq> q" "p \<noteq> path_join q (basename src)"
  shows "keeps p (copy_file src q)"
proof -
  have "p \<noteq> copy_target s src q" for s
    using assms by (simp add: copy_target_def)
  then show ?thesis
    unfolding keeps_def copy_file_def Let_def
    by (auto simp: write_file_def split: option.splits node.splits if_splits)
qed

lemma keeps_seq: "keeps p f \<Longrightarrow> keeps p g \<Longrightarrow> keeps p (seq f g)"
  unfolding keeps_def seq_def
  by (auto split: prod.splits option.splits)

lemma keeps_substitute_table: "p \<noteq> q \<Longrightarrow> keeps p (substitute_table src q pid)"
  using keeps_seq [OF keeps_write_file keeps_append_tgt, of p q _ q]
  unfolding keeps_def substitute_table_def
  by (auto split: option.splits node.splits)

lemma keeps_run: "(\<And>f. f \<in> set progs \<Longrightarrow> keeps p f) \<Longrightarrow> keeps p (run progs)"
proof (induction progs)
  case Nil
  show ?case by (simp add: keeps_skip)
next
  case (Cons a progs)
  then show ?case by (simp add: keeps_seq)
qed

lemma neq_by_last: "b \<noteq> [] \<Longrightarrow> last a \<noteq> last b \<Longrightarrow> a \<noteq> X @ b"
  by auto

lemma input_data_paths:
  "outdir @ ''/input_data/README.md'' \<noteq> outdir @ ''/'' @ X @ ''.json''"
  "outdir @ ''/input_data'' \<noteq> outdir @ ''/'' @ X @ ''.json''"
  using neq_by_last [of "''.json''" "''input_data/README.md''" X]
    neq_by_last [of "''.json''" "''input_data''" X]
  by simp_all

lemma create_folder_input_data:
  assumes "create_folder outdir ''input_data'' (Some ''Input Files'')
             (Some ''Taxonomy data files.'') s = (None, s')"
  shows "fs s' (outdir @ ''/input_data'') = Some Dir
       \<and> fs s' (outdir @ ''/input_data/README.md'')
           = Some (File ''# Input Files\<newline>\<newline>Taxonomy data files.'')
       \<and> tgts s' = tgts s @ [outdir @ ''/input_data/README.md'']"
  using assms
  by (auto simp: create_folder_def truthy_def Let_def seq_None write_file_None append_tgt_def
      makedirs_def split: if_splits option.splits node.splits)

text \<open>The paths inside the planned copies, spelled out.\<close>

lemma copy_inside_paths:
  "path_join (outdir @ ''/run.sh'') (basename (WORKSPACE @ ''/scripts/run.sh''))
     = outdir @ ''/run.sh/run.sh''"
  "path_join (outdir @ ''/Makefile'') (basename (WORKSPACE @ ''/Makefile''))
     = outdir @ ''/Makefile/Makefile''"
  "path_join (outdir @ ''/ontodev.Makefile'') (basename (WORKSPACE @ ''/ontodev.Makefile''))
     = outdir @ ''/ontodev.Makefile/ontodev.Makefile''"
  "path_join (outdir @ ''/curation_tables/datatype.tsv'')
       (basename (WORKSPACE @ ''/resources/datatype.tsv''))
     = outdir @ ''/curation_tables/datatype.tsv/datatype.tsv''"
  "path_join (outdir @ ''/curation_tables/prefix.tsv'')
       (basename (WORKSPACE @ ''/resources/prefix.tsv''))
     = outdir @ ''/curation_tables/prefix.tsv/prefix.tsv''"
  "path_join (outdir @ ''/curation_tables/import.tsv'')
       (basename (WORKSPACE @ ''/resources/import.tsv''))
     = outdir @ ''/curation_tables/import.tsv/import.tsv''"
  "path_join (outdir @ ''/curation_tables/import_config.tsv'')
       (basename (WORKSPACE @ ''/resources/import_config.tsv''))
     = outdir @ ''/curation_tables/import_config.tsv/import_config.tsv''"
  "path_join (outdir @ ''/curation_tables/'' @ X @ ''_config.tsv'')
       (basename (WORKSPACE @ ''/resources/taxonomy_config.tsv''))
     = outdir @ ''/curation_tables/'' @ X @ ''_config.tsv/taxonomy_config.tsv''"
  by (simp_all add: path_join_def basename_def WORKSPACE_def)

lemma keeps_after_input_data:
  "keeps (outdir @ ''/input_data/README.md'') (after_input_data outdir project)"
  "keeps (outdir @ ''/input_data'') (after_input_data outdir project)"
  unfolding after_input_data_def
  by (rule keeps_run;
      auto simp: create_folder_def create_purl_config_def create_readme_def
        create_output_file_def create_run_script_def create_makefile_def
        create_ontodev_tables_def purl_config_def output_file_def Let_def
        input_data_paths path_join_def basename_def WORKSPACE_def
      intro!: keeps_seq keeps_makedirs keeps_write_file keeps_copy_file keeps_append_tgt
        keeps_skip keeps_substitute_table)+

lemma grows_after_input_data:
  assumes "after_input_data outdir project s = (e, s')"
  shows "set (tgts s) \<subseteq> set (tgts s')"
proof -
  have "appends
      ([outdir @ ''/'' @ ''curation_tables'' @ ''/README.md'']
       @ [outdir @ ''/'' @ ''purl'' @ ''/README.md'']
       @ [purl_config outdir project] @ [outdir @ ''/README.md'']
       @ [output_file outdir project] @ [outdir @ ''/run.sh'']
       @ [outdir @ ''/Makefile'', outdir @ ''/ontodev.Makefile'']
       @ [outdir @ ''/curation_tables/table.tsv'',
            outdir @ ''/curation_tables/column.tsv'',
            outdir @ ''/curation_tables/datatype.tsv'',
            outdir @ ''/curation_tables/prefix.tsv'',
            outdir @ ''/curation_tables/import.tsv'',
            outdir @ ''/curation_tables/import_config.tsv'',
            outdir @ ''/curation_tables/'' @ format_str (id' project) @ ''_config.tsv'']
       @ [])
      (after_input_data outdir project)"
    unfolding after_input_data_def run.simps
    by (intro appends_seq appends_create_folder appends_create_purl_config
        appends_create_readme appends_create_output_file appends_create_run_script
        appends_create_makefile appends_create_ontodev_tables appends_nothing(1))
      (simp_all add: truthy_def)
  with assms show ?thesis
    unfolding appends_def by (cases e) fastforce+
qed

lemma seed_generate_split:
  "seed_generate yd config clean outdir project =
     seq (run [(\<lambda>s. if clean \<and> path_exists s outdir then rmtree outdir s else skip s),
               (\<lambda>s. if \<not> path_exists s outdir then makedirs outdir s else skip s),
               (if export_project_yaml project then
                  seq (save_project_yaml yd project (outdir @ ''/project.yaml''))
                      (append_tgt (outdir @ ''/project.yaml''))
                else skip),
               append_tgt (tdt_config_file outdir project),
               (case config of
                  Some c \<Rightarrow> copy_file c (tdt_config_file outdir project)
                | None \<Rightarrow> save_project_yaml yd project (tdt_config_file outdir project))])
       (seq (create_folder outdir ''input_data'' (Some ''Input Files'')
               (Some ''Taxonomy data files.''))
            (after_input_data outdir project))"
  by (simp add: seed_generate_def after_input_data_def seq_assoc seq_skip_left)

text \<open>
  Claim C8 (as amended). \<^verbatim>\<open>seed\<close> calls \<^verbatim>\<open>create_folder\<close> for \<^verbatim>\<open>input_data\<close> with a
  title and a description, so the directory is not left empty: in every run that
  completes, \<^verbatim>\<open>input_data\<close> is a directory under the output directory, it holds a
  \<^verbatim>\<open>README.md\<close> with the text \<^verbatim>\<open># Input Files\<close>, an empty line and
  \<^verbatim>\<open>Taxonomy data files.\<close>, and that file is listed in \<^verbatim>\<open>tgts\<close>.
\<close>

theorem seed_input_data_readme:
  assumes "seed_resolve (map_option snd config) t u rs = (printed, Inr project)"
    and "seed yd config clean od t u rs fs0 = (None, s')"
  shows "fs s' (resolve_outdir od project @ ''/input_data'') = Some Dir
       \<and> fs s' (resolve_outdir od project @ ''/input_data/README.md'')
           = Some (File ''# Input Files\<newline>\<newline>Taxonomy data files.'')
       \<and> resolve_outdir od project @ ''/input_data/README.md'' \<in> set (tgts s')"
proof -
  let ?out = "resolve_outdir od project"
  from assms have "seed_generate yd (map_option fst config) clean ?out project
      \<lparr>fs = fs0, tgts = [], stdout = printed\<rparr> = (None, s')"
    by (simp add: seed_def)
  then obtain s1 s2 where
    cf: "create_folder ?out ''input_data'' (Some ''Input Files'')
           (Some ''Taxonomy data files.'') s1 = (None, s2)"
    and post: "after_input_data ?out project s2 = (None, s')"
    unfolding seed_generate_split seq_None by blast
  note c = create_folder_input_data [OF cf]
  from keeps_after_input_data [of ?out project] post
  have k: "fs s' (?out @ ''/input_data/README.md'') = fs s2 (?out @ ''/input_data/README.md'')"
    "fs s' (?out @ ''/input_data'') = fs s2 (?out @ ''/input_data'')"
    unfolding keeps_def by blast+
  from grows_after_input_data [OF post]
  have "set (tgts s2) \<subseteq> set (tgts s')" .
  with c k show ?thesis by auto
qed

text \<open>The run on the example file system.\<close>

theorem seed_input_data_readme_witness:
  "fs (snd (seed (\<lambda>d. []) None False None None None [''x''] demo_fs)) ''target/x/input_data''
     = Some Dir
   \<and> fs (snd (seed (\<lambda>d. []) None False None None None [''x''] demo_fs))
        ''target/x/input_data/README.md''
     = Some (File ''# Input Files\<newline>\<newline>Taxonomy data files.'')
   \<and> ''target/x/input_data/README.md''
        \<in> set (tgts (snd (seed (\<lambda>d. []) None False None None None [''x''] demo_fs)))"
proof -
  let ?P = "TaxonomyProject_default\<lparr>repo := ''x'', id' := Some ''x''\<rparr>"
  have r: "seed_resolve (map_option snd None) None None [''x''] = ([], Inr ?P)"
    by (simp add: resolve_defs)
  have "fst (seed (\<lambda>d. []) None False None None None [''x''] demo_fs) = None"
    by code_simp
  then have e: "seed (\<lambda>d. []) None False None None None [''x''] demo_fs
      = (None, snd (seed (\<lambda>d. []) None False None None None [''x''] demo_fs))"
    by (metis prod.collapse)
  from seed_input_data_readme [OF r e] show ?thesis
    by (simp add: resolve_outdir_def)
qed

text \<open>
  The claim as the specification words it (an empty directory, no README) fails on the
  example file system: after a run with the clean flag the directory holds the README.
\<close>

theorem input_data_not_empty:
  "fst (seed (\<lambda>d. []) None True None None None [''x''] demo_fs) = None
   \<and> fs (snd (seed (\<lambda>d. []) None True None None None [''x''] demo_fs))
        ''target/x/input_data/README.md''
     = Some (File ''# Input Files\<newline>\<newline>Taxonomy data files.'')"
  by code_simp

end
